theory Spec2Isabelle
  imports Main "HOL-Library.Sublist"
begin

section \<open>Python strings and the built-ins the agent uses\<close>

text \<open>
  A Python \<open>str\<close> is a sequence of Unicode code points, and \<open>len\<close>, slicing and
  \<open>rfind\<close> count code points. The templates of \<open>content_agent.py\<close> contain code
  points above 255, so a character is modelled as its code point (a \<open>nat\<close>) and a
  string as a list of them. \<open>u\<close> reads an ASCII literal as such a string.
\<close>

type_synonym ustring = "nat list"

definition u :: "string \<Rightarrow> ustring" where
  "u s = map of_char s"

text \<open>
  The characters for which \<open>str.isspace\<close> holds; \<open>str.split()\<close> and the regular
  expression class \<open>\s\<close> use the same set.
\<close>

definition is_space :: "nat \<Rightarrow> bool" where
  "is_space c \<longleftrightarrow>
     (9 \<le> c \<and> c \<le> 13) \<or> (28 \<le> c \<and> c \<le> 32) \<or> c = 133 \<or> c = 160 \<or> c = 5760
     \<or> (8192 \<le> c \<and> c \<le> 8202) \<or> c = 8232 \<or> c = 8233 \<or> c = 8239 \<or> c = 8287
     \<or> c = 12288"

text \<open>\<open>s.split()\<close>: the maximal runs of non-whitespace characters, in order.\<close>

fun split_acc :: "ustring \<Rightarrow> ustring \<Rightarrow> ustring list" where
  "split_acc w [] = (if w = [] then [] else [w])"
| "split_acc w (c # cs) =
     (if is_space c then (if w = [] then split_acc [] cs else w # split_acc [] cs)
      else split_acc (w @ [c]) cs)"

definition py_split :: "ustring \<Rightarrow> ustring list" where
  "py_split s = split_acc [] s"

text \<open>\<open>sep.join(xs)\<close>.\<close>

fun py_join :: "'a list \<Rightarrow> 'a list list \<Rightarrow> 'a list" where
  "py_join sep [] = []"
| "py_join sep [x] = x"
| "py_join sep (x # y # ys) = x @ sep @ py_join sep (y # ys)"

text \<open>
  \<open>s.replace(old, new)\<close>: every occurrence of \<open>old\<close>, found from the left and not
  overlapping, is replaced. With an empty \<open>old\<close> Python puts \<open>new\<close> before every
  character and at the end.
\<close>

function py_replace :: "'a list \<Rightarrow> 'a list \<Rightarrow> 'a list \<Rightarrow> 'a list" where
  "py_replace old new s =
     (if old = [] then new @ concat (map (\<lambda>c. c # new) s)
      else if s = [] then []
      else if take (length old) s = old then new @ py_replace old new (drop (length old) s)
      else hd s # py_replace old new (tl s))"
  by pat_completeness auto
termination
  by (relation "measure (\<lambda>(old, new, s). length s)") (auto simp: neq_Nil_conv)

declare py_replace.simps [simp del]

text \<open>\<open>s[:k]\<close> for any integer \<open>k\<close>: a negative \<open>k\<close> counts from the end.\<close>

definition slice_to :: "int \<Rightarrow> 'a list \<Rightarrow> 'a list" where
  "slice_to k s = (if 0 \<le> k then take (nat k) s else take (length s - nat (- k)) s)"

text \<open>\<open>s.rfind(c)\<close> for a single character: the last index of \<open>c\<close>, or \<open>-1\<close>.\<close>

fun rfind :: "'a \<Rightarrow> 'a list \<Rightarrow> int" where
  "rfind c [] = - 1"
| "rfind c (x # xs) =
     (let r = rfind c xs in if 0 \<le> r then r + 1 else if x = c then 0 else - 1)"

text \<open>\<open>str(n)\<close> for an integer.\<close>

fun str_nat :: "nat \<Rightarrow> ustring" where
  "str_nat n = (if n < 10 then [48 + n] else str_nat (n div 10) @ [48 + n mod 10])"

declare str_nat.simps [simp del]

definition str_int :: "int \<Rightarrow> ustring" where
  "str_int i = (if i < 0 then 45 # str_nat (nat (- i)) else str_nat (nat i))"

text \<open>
  What the interpreter fixes for one process run and the source does not determine:
  \<^item> \<open>py_hash\<close>: the built-in \<open>hash\<close> on strings (seeded per process);
  \<^item> \<open>set_order\<close>: the order in which \<open>list(set(xs))\<close> lists the members of the set
    built from the list \<open>xs\<close>;
  \<^item> \<open>unicode_lower\<close>, \<open>unicode_title\<close>: \<open>str.lower\<close> and \<open>str.title\<close> on strings
    that are not pure ASCII (the Unicode case tables);
  \<^item> \<open>float_repr\<close>: \<open>str(float(d) - 0.5)\<close> for integers \<open>d\<close> beyond \<open>2^52\<close> in
    absolute value, where the subtraction is no longer exact.
\<close>

record pyenv =
  py_hash :: "ustring \<Rightarrow> int"
  set_order :: "ustring list \<Rightarrow> ustring list"
  unicode_lower :: "ustring \<Rightarrow> ustring"
  unicode_title :: "ustring \<Rightarrow> ustring"
  float_repr :: "int \<Rightarrow> ustring"

text \<open>A set lists each of its members once and nothing else.\<close>

definition env_ok :: "pyenv \<Rightarrow> bool" where
  "env_ok env \<longleftrightarrow> (\<forall>xs. distinct (set_order env xs) \<and> set (set_order env xs) = set xs)"

definition is_ascii :: "ustring \<Rightarrow> bool" where
  "is_ascii s \<longleftrightarrow> list_all (\<lambda>c. c < 128) s"

definition is_upper_ascii :: "nat \<Rightarrow> bool" where
  "is_upper_ascii c \<longleftrightarrow> 65 \<le> c \<and> c \<le> 90"

definition is_lower_ascii :: "nat \<Rightarrow> bool" where
  "is_lower_ascii c \<longleftrightarrow> 97 \<le> c \<and> c \<le> 122"

definition lower_ascii :: "nat \<Rightarrow> nat" where
  "lower_ascii c = (if is_upper_ascii c then c + 32 else c)"

definition upper_ascii :: "nat \<Rightarrow> nat" where
  "upper_ascii c = (if is_lower_ascii c then c - 32 else c)"

text \<open>\<open>s.lower()\<close>.\<close>

definition py_lower :: "pyenv \<Rightarrow> ustring \<Rightarrow> ustring" where
  "py_lower env s = (if is_ascii s then map lower_ascii s else unicode_lower env s)"

text \<open>
  \<open>s.title()\<close>: a letter that follows a letter is lower-cased, any other letter is
  upper-cased. The flag says whether the previous character was a letter.
\<close>

fun title_ascii :: "bool \<Rightarrow> ustring \<Rightarrow> ustring" where
  "title_ascii prev [] = []"
| "title_ascii prev (c # cs) =
     (if prev then lower_ascii c else upper_ascii c)
       # title_ascii (is_upper_ascii c \<or> is_lower_ascii c) cs"

definition py_title :: "pyenv \<Rightarrow> ustring \<Rightarrow> ustring" where
  "py_title env s = (if is_ascii s then title_ascii False s else unicode_title env s)"

section \<open>Requests and outputs\<close>

record ContentRequest =
  topic :: ustring
  content_type :: ustring
  target_audience :: ustring
  tone :: ustring
  word_count :: "int option"
  platform :: "ustring option"
  call_to_action :: "ustring option"
  include_examples :: bool
  include_seo :: bool

text \<open>
  The \<open>tags\<close> field of an output holds a list of tags for four builders and, for
  the social media builder, the string of hashtags that \<open>_generate_social_tags\<close>
  returns. The field \<open>readability_score\<close> keeps its default \<open>0.0\<close> in every
  output that the agent builds and is left out of the record. The fields
  \<open>call_to_action\<close>, \<open>tags\<close> and \<open>word_count\<close> of an output carry the prefix
  \<open>out_\<close>, since the request has fields of the same names.
\<close>

datatype tags = TagList "ustring list" | TagString ustring

record ContentOutput =
  title :: ustring
  content :: ustring
  headings :: "ustring list"
  out_call_to_action :: "ustring option"
  out_tags :: tags
  out_word_count :: nat

section \<open>Helper methods\<close>

text \<open>
  \<open>_truncate_to_limit\<close>. The test \<open>last_space > char_limit * 0.8\<close> is taken in exact
  arithmetic, as \<open>5 * last_space > 4 * char_limit\<close>; the double-precision product
  decides the same for every \<open>char_limit\<close> below \<open>2^50\<close> in absolute value.
\<close>

definition truncate_to_limit :: "ustring \<Rightarrow> int \<Rightarrow> ustring" where
  "truncate_to_limit text char_limit =
     (if int (length text) \<le> char_limit then text
      else
        let truncated = slice_to char_limit text;
            last_space = rfind 32 truncated;
            truncated = (if 5 * last_space > 4 * char_limit
                         then slice_to last_space truncated else truncated)
        in truncated @ u ''...'')"

text \<open>\<open>_count_words\<close>.\<close>

definition count_words :: "ustring \<Rightarrow> nat" where
  "count_words text = length (py_split text)"

text \<open>\<open>_generate_seo_tags\<close>, and the set it builds before the cut to ten members.\<close>

definition base_tags :: "ustring list" where
  "base_tags = [u ''technology'', u ''business'', u ''strategy'', u ''innovation'', u ''growth'']"

definition stop_words :: "ustring list" where
  "stop_words = [u ''of'', u ''for'', u ''the'', u ''and'', u ''a'', u ''an'']"

definition specific_tags :: "pyenv \<Rightarrow> ustring \<Rightarrow> ustring list" where
  "specific_tags env tp = filter (\<lambda>word. word \<notin> set stop_words) (py_split (py_lower env tp))"

definition seo_tag_set :: "pyenv \<Rightarrow> ustring \<Rightarrow> ustring list" where
  "seo_tag_set env tp = set_order env (base_tags @ specific_tags env tp)"

definition generate_seo_tags :: "pyenv \<Rightarrow> ustring \<Rightarrow> ustring list" where
  "generate_seo_tags env tp = take 10 (seo_tag_set env tp)"

text \<open>\<open>_generate_social_tags\<close>.\<close>

definition generate_social_tags :: "pyenv \<Rightarrow> ustring \<Rightarrow> ustring" where
  "generate_social_tags env tp =
     py_join (u '' '') (map (\<lambda>tag. 35 # tag) (take 5 (generate_seo_tags env tp)))"

text \<open>The topic as the section generators interpolate it.\<close>

definition topic_clean :: "ustring \<Rightarrow> ustring" where
  "topic_clean tp = py_replace (u '' for'') [] (py_replace (u ''Benefits of '') [] tp)"

text \<open>
  \<open>_extract_headings\<close>: \<open>re.findall(r'^#+\s+(.+)$', content, re.MULTILINE)\<close>.
  At the start of a line the pattern takes every \<open>#\<close>, then every whitespace
  character (a newline is one), and gives whitespace back one character at a time, keeping
  at least one, until what follows starts with a character other than a newline; the
  group is the rest of that line. \<open>backtrack\<close> holds the whitespace taken, last
  character first, and the input behind it.
\<close>

fun backtrack :: "ustring \<Rightarrow> ustring \<Rightarrow> (ustring \<times> ustring) option" where
  "backtrack [] rest = None"
| "backtrack (w # ws) rest =
     (if rest \<noteq> [] \<and> hd rest \<noteq> 10
      then Some (takeWhile (\<lambda>c. c \<noteq> 10) rest, dropWhile (\<lambda>c. c \<noteq> 10) rest)
      else backtrack ws (w # rest))"

definition match_heading :: "ustring \<Rightarrow> (ustring \<times> ustring) option" where
  "match_heading s =
     (let after_hashes = dropWhile (\<lambda>c. c = 35) s
      in if takeWhile (\<lambda>c. c = 35) s = [] then None
         else backtrack (rev (takeWhile is_space after_hashes)) (dropWhile is_space after_hashes))"

text \<open>
  The scan of \<open>findall\<close>: \<open>bol\<close> says whether the position is the start of a line. A
  match ends before a newline or at the end of the text, and the scan goes on from there.
\<close>

function find_headings :: "bool \<Rightarrow> ustring \<Rightarrow> ustring list" where
  "find_headings bol [] = []"
| "find_headings bol (c # cs) =
     (if bol then
        (case match_heading (c # cs) of
           Some (h, rest) \<Rightarrow> h # find_headings False rest
         | None \<Rightarrow> find_headings (c = 10) cs)
      else find_headings (c = 10) cs)"
  by pat_completeness auto
termination
proof (relation "measure (\<lambda>(bol, s). length s)")
  have bt: "length r \<le> length ws + length rest"
    if "backtrack ws rest = Some (h, r)" for ws rest h r
    using that
  proof (induction ws arbitrary: rest)
    case Nil
    then show ?case by simp
  next
    case (Cons w ws)
    show ?case
    proof (cases "rest \<noteq> [] \<and> hd rest \<noteq> 10")
      case True
      with Cons.prems have "r = dropWhile (\<lambda>c. c \<noteq> 10) rest" by simp
      then have "length r \<le> length rest" by (simp add: length_dropWhile_le)
      then show ?thesis by simp
    next
      case False
      with Cons.prems have "backtrack ws (w # rest) = Some (h, r)" by auto
      from Cons.IH [OF this] show ?thesis by simp
    qed
  qed
  have shorter: "length r < length s" if m: "match_heading s = Some (h, r)" for s h r
  proof -
    let ?a = "dropWhile (\<lambda>c. c = 35) s"
    from m have ne: "takeWhile (\<lambda>c. c = 35) s \<noteq> []"
      and b: "backtrack (rev (takeWhile is_space ?a)) (dropWhile is_space ?a) = Some (h, r)"
      by (auto simp: match_heading_def Let_def split: if_splits)
    have "length (takeWhile is_space ?a) + length (dropWhile is_space ?a)
            = length (takeWhile is_space ?a @ dropWhile is_space ?a)"
      by (simp only: length_append)
    also have "\<dots> = length ?a" by (simp only: takeWhile_dropWhile_id)
    finally have a: "length r \<le> length ?a" using bt [OF b] by simp
    have "length (takeWhile (\<lambda>c. c = 35) s) + length ?a
            = length (takeWhile (\<lambda>c. c = 35) s @ ?a)"
      by (simp only: length_append)
    also have "\<dots> = length s" by (simp only: takeWhile_dropWhile_id)
    finally have e: "length (takeWhile (\<lambda>c. c = 35) s) + length ?a = length s" .
    have "0 < length (takeWhile (\<lambda>c. c = 35) s)" using ne by blast
    with e a show ?thesis by linarith
  qed
  show "wf (measure (\<lambda>(bol, s). length s))" by simp
  show "((False, rest), bol, c # cs) \<in> measure (\<lambda>(bol, s). length s)"
    if "match_heading (c # cs) = Some x" and "(h, rest) = x" for bol c cs x h rest
    using shorter [of "c # cs" h rest] that by simp
qed simp_all

definition extract_headings :: "ustring \<Rightarrow> ustring list" where
  "extract_headings text = find_headings True text"

text \<open>\<open>x or d\<close> for an optional integer and for an optional string.\<close>

definition or_else_int :: "int option \<Rightarrow> int \<Rightarrow> int" where
  "or_else_int x d = (case x of None \<Rightarrow> d | Some n \<Rightarrow> if n = 0 then d else n)"

definition or_else_str :: "ustring option \<Rightarrow> ustring \<Rightarrow> ustring" where
  "or_else_str x d = (case x of None \<Rightarrow> d | Some s \<Rightarrow> if s = [] then d else s)"

text \<open>An optional string inside an f-string.\<close>

definition str_option :: "ustring option \<Rightarrow> ustring" where
  "str_option x = (case x of None \<Rightarrow> u ''None'' | Some s \<Rightarrow> s)"

text \<open>
  The exceptions that can arise below \<open>generate_content\<close>, and the \<open>Exception\<close> it
  raises in their place, whose message is \<open>"Content generation failed: "\<close> followed by
  \<open>str(e)\<close> of the exception caught.
\<close>

datatype py_exception =
  ValueError ustring | KeyError ustring | OverflowError | ZeroDivisionError

datatype generation_error = GenerationFailed py_exception

section \<open>The profile tables\<close>

record tone_template =
  style :: ustring
  emphasis :: ustring
  examples :: ustring

record audience_profile =
  pain_points :: "ustring list"
  interests :: "ustring list"
  language :: ustring

definition tone_templates :: "(ustring \<times> tone_template) list" where
  "tone_templates = [
     (u ''professional'',
      \<lparr>style = u ''Clear, authoritative, and industry-specific language'',
       emphasis = u ''Expertise, credibility, and measurable results'',
       examples = u ''Industry statistics, case studies, technical data''\<rparr>),
     (u ''conversational'',
      \<lparr>style = u ''Friendly, accessible language with personal anecdotes'',
       emphasis = u ''Relatability, story-telling, and personal experiences'',
       examples = u ''Personal stories, relatable scenarios, everyday situations''\<rparr>),
     (u ''persuasive'',
      \<lparr>style = u ''Compelling arguments with emotional and logical appeals'',
       emphasis = u ''Benefits, urgency, and transformation'',
       examples = u ''Before/after scenarios, success stories, compelling statistics''\<rparr>),
     (u ''informative'',
      \<lparr>style = u ''Educational, clear explanations with structured information'',
       emphasis = u ''Learning, understanding, and comprehensive coverage'',
       examples = u ''Step-by-step guides, detailed explanations, comprehensive lists''\<rparr>),
     (u ''humorous'',
      \<lparr>style = u ''Witty, light-hearted language with appropriate humor'',
       emphasis = u ''Entertainment, engagement, and memorable content'',
       examples = u ''Funny analogies, wordplay, entertaining scenarios''\<rparr>)]"

definition general_audience :: audience_profile where
  "general_audience =
     \<lparr>pain_points = [u ''Learning new concepts'', u ''Practical application''],
      interests = [u ''Accessible information'', u ''Clear benefits''],
      language = u ''Simple, jargon-free''\<rparr>"

definition audience_profiles :: "(ustring \<times> audience_profile) list" where
  "audience_profiles = [
     (u ''startup_founders'',
      \<lparr>pain_points = [u ''Rapid growth'', u ''Market validation'', u ''Resource constraints''],
       interests = [u ''Growth strategies'', u ''Funding'', u ''Technology adoption''],
       language = u ''Business-focused, results-oriented''\<rparr>),
     (u ''tech_leads'',
      \<lparr>pain_points = [u ''Team management'', u ''Technical debt'', u ''Scalability''],
       interests = [u ''Best practices'', u ''Team productivity'', u ''Architecture''],
       language = u ''Technical but accessible''\<rparr>),
     (u ''marketing_professionals'',
      \<lparr>pain_points = [u ''Lead generation'', u ''ROI measurement'', u ''Brand awareness''],
       interests = [u ''Marketing trends'', u ''Campaign optimization'', u ''Customer acquisition''],
       language = u ''Strategy-focused, metrics-driven''\<rparr>),
     (u ''general_audience'', general_audience)]"

text \<open>
  \<open>self.audience_profiles.get(request.target_audience,
  self.audience_profiles['general_audience'])\<close>. Every profile of the table has at least
  two pain points and two interests, so the section generators index them without
  raising.
\<close>

definition get_audience :: "ustring \<Rightarrow> audience_profile" where
  "get_audience a = (case map_of audience_profiles a of Some p \<Rightarrow> p | None \<Rightarrow> general_audience)"

text \<open>\<open>_get_default_word_count\<close>.\<close>

definition get_default_word_count :: "ustring \<Rightarrow> int" where
  "get_default_word_count ct =
     (case map_of [(u ''blog'', 800), (u ''social_media'', 200),
                   (u ''newsletter'', 600), (u ''video_script'', 1200),
                   (u ''email_campaign'', 400)] ct
      of Some n \<Rightarrow> n | None \<Rightarrow> 500)"

text \<open>\<open>_generate_default_cta\<close>.\<close>

definition generate_default_cta :: "pyenv \<Rightarrow> ContentRequest \<Rightarrow> ustring" where
  "generate_default_cta env request =
     (let tp = topic request;
          ctas = [
            u ''Ready to implement '' @ topic_clean tp @
            u '' in your organization? Start with our free assessment tool.'',
            u ''Want to learn more about '' @ topic_clean tp @
            u ''? Download our comprehensive guide today.'',
            u ''Start your '' @ topic_clean tp @
            u '' journey today. Get personalized recommendations for your team.'',
            u ''Transform your business with '' @ topic_clean tp @
            u ''. Book a consultation to get started.'']
      in ctas ! nat (py_hash env (topic request) mod int (length ctas)))"

text \<open>\<open>_generate_social_cta\<close>.\<close>

definition generate_social_cta :: "ustring \<Rightarrow> ustring \<Rightarrow> ustring" where
  "generate_social_cta tp pf =
     (if pf = u ''linkedin''
      then u ''Looking to implement '' @ topic_clean tp @
           u ''? Let's connect and discuss how we can help your organization succeed.''
      else u ''What's your experience with '' @ topic_clean tp @
           u ''? Share your thoughts in the comments! '' @ [240, 376, 8217, 172])"

section \<open>The blog builder\<close>

text \<open>\<open>_generate_blog_introduction\<close>.\<close>

definition generate_blog_introduction ::
  "pyenv \<Rightarrow> ustring \<Rightarrow> audience_profile \<Rightarrow> tone_template \<Rightarrow> ustring" where
  "generate_blog_introduction env tp aud tn =
     (let pain_points_str = py_join (u '', '') (take 2 (pain_points aud));
          intro_templates = [
            u ''In today's fast-paced business environment, '' @ tp @
            u '' has emerged as a critical factor for success. Whether you're dealing with '' @
            pain_points_str @ u '' or seeking sustainable growth, understanding '' @ tp @
            u '' can be the game-changer your organization needs.'',
            u ''You've probably heard about '' @ tp @
            u '', but do you truly understand its transformative potential? For '' @ interests aud ! 0 @
            u '' professionals, this isn't just another trend'' @ [226, 8364, 8221] @
            u ''it's a fundamental shift that can revolutionize how you operate.'',
            u ''The numbers don't lie: companies that successfully implement '' @ tp @
            u '' see remarkable improvements across multiple metrics. But here's what most people miss'' @
            [226, 8364, 8221] @
            u ''it's not just about the technology or methodology, it's about the mindset shift that makes it all possible.'']
      in intro_templates ! nat (py_hash env tp mod int (length intro_templates)))"

text \<open>\<open>_generate_problem_section\<close>.\<close>

definition generate_problem_section :: "ustring \<Rightarrow> audience_profile \<Rightarrow> ustring" where
  "generate_problem_section tp aud =
     u ''Traditional approaches to '' @ topic_clean tp @
     u '' often fall short because they fail to address fundamental challenges:\<newline>'' @
     u ''\<newline>'' @
     u ''- **'' @ pain_points aud ! 0 @
     u ''**: Most organizations struggle with this because they lack systematic approaches\<newline>'' @
     u ''- **Scalability Issues**: Rapid growth can quickly overwhelm unprepared teams\<newline>'' @
     u ''- **Resource Constraints**: Limited budgets and personnel create bottlenecks\<newline>'' @
     u ''\<newline>'' @
     u ''These challenges aren't insurmountable, but they require a strategic, modern approach.''"

text \<open>\<open>_generate_solution_section\<close>.\<close>

definition generate_solution_section ::
  "ustring \<Rightarrow> audience_profile \<Rightarrow> tone_template \<Rightarrow> ustring" where
  "generate_solution_section tp aud tn =
     u ''The solution lies in adopting a comprehensive '' @ topic_clean tp @
     u '' strategy that addresses both immediate needs and long-term objectives.\<newline>'' @
     u ''\<newline>'' @
     u ''**Core Principles:**\<newline>'' @
     u ''\<newline>'' @
     u ''1. **Strategic Integration**: Seamlessly blend '' @ topic_clean tp @
     u '' into existing workflows\<newline>'' @
     u ''2. **Team Alignment**: Ensure all stakeholders understand the value and implementation process\<newline>'' @
     u ''3. **Continuous Improvement**: Build mechanisms for ongoing optimization and adaptation\<newline>'' @
     u ''\<newline>'' @
     u ''**Implementation Framework:**\<newline>'' @
     u ''\<newline>'' @
     u ''- Start with pilot projects to demonstrate quick wins\<newline>'' @
     u ''- Scale proven methodologies across teams and departments\<newline>'' @
     u ''- Measure progress using established KPIs and metrics\<newline>'' @
     u ''- Iterate and refine based on real-world feedback\<newline>'' @
     u ''\<newline>'' @
     examples tn @
     u '': Companies implementing this approach typically see 30-40% improvements in key performance indicators within the first quarter.''"

text \<open>\<open>_generate_benefits_section\<close>.\<close>

definition generate_benefits_section ::
  "ustring \<Rightarrow> audience_profile \<Rightarrow> tone_template \<Rightarrow> ustring" where
  "generate_benefits_section tp aud tn =
     u ''**Immediate Benefits:**\<newline>'' @
     u ''\<newline>'' @
     u ''- **Improved Efficiency**: Streamlined processes reduce time-to-market by 25-40%\<newline>'' @
     u ''- **Enhanced Quality**: Systematic approaches result in fewer errors and higher customer satisfaction\<newline>'' @
     u ''- **Cost Reduction**: Automation and optimization typically deliver 15-30% cost savings\<newline>'' @
     u ''\<newline>'' @
     u ''**Long-term Advantages:**\<newline>'' @
     u ''\<newline>'' @
     u ''- **Competitive Edge**: Organizations that master '' @ topic_clean tp @
     u '' consistently outperform competitors\<newline>'' @
     u ''- **Team Satisfaction**: Clear processes and continuous improvement boost employee engagement\<newline>'' @
     u ''- **Innovation Acceleration**: Structured frameworks enable faster experimentation and adaptation\<newline>'' @
     u ''\<newline>'' @
     u ''**ROI Considerations:**\<newline>'' @
     u ''\<newline>'' @
     examples tn @ u '' show that the average return on investment for '' @ topic_clean tp @
     u '' initiatives ranges from 200-400% within the first 18 months, making it one of the most valuable strategic investments available.''"

text \<open>\<open>_generate_implementation_section\<close>.\<close>

definition generate_implementation_section :: "ustring \<Rightarrow> audience_profile \<Rightarrow> ustring" where
  "generate_implementation_section tp aud =
     u ''**Getting Started:**\<newline>'' @
     u ''\<newline>'' @
     u ''1. **Assessment Phase** (Weeks 1-2)\<newline>'' @
     u ''   - Conduct comprehensive analysis of current state\<newline>'' @
     u ''   - Identify key stakeholders and decision makers\<newline>'' @
     u ''   - Define success metrics and timeline\<newline>'' @
     u ''\<newline>'' @
     u ''2. **Planning Phase** (Weeks 3-4)\<newline>'' @
     u ''   - Develop detailed implementation roadmap\<newline>'' @
     u ''   - Allocate resources and assign responsibilities\<newline>'' @
     u ''   - Create communication and training plans\<newline>'' @
     u ''\<newline>'' @
     u ''3. **Execution Phase** (Months 2-6)\<newline>'' @
     u ''   - Implement pilot programs with select teams\<newline>'' @
     u ''   - Monitor progress and adjust strategies\<newline>'' @
     u ''   - Scale successful approaches across organization\<newline>'' @
     u ''\<newline>'' @
     u ''**Common Pitfalls to Avoid:**\<newline>'' @
     u ''\<newline>'' @
     u ''- **Scope Creep**: Keep initial implementation focused on core objectives\<newline>'' @
     u ''- **Insufficient Training**: Invest in comprehensive team education\<newline>'' @
     u ''- **Inadequate Metrics**: Establish clear measurement systems from the start\<newline>'' @
     u ''- **Cultural Resistance**: Address change management proactively\<newline>'' @
     u ''\<newline>'' @
     u ''**Success Metrics:**\<newline>'' @
     u ''\<newline>'' @
     u ''- Process efficiency improvements\<newline>'' @
     u ''- Cost reduction percentages  \<newline>'' @
     u ''- Team satisfaction scores\<newline>'' @
     u ''- Customer satisfaction ratings''"

text \<open>\<open>_generate_examples_section\<close>.\<close>

definition generate_examples_section :: "ustring \<Rightarrow> tone_template \<Rightarrow> ustring" where
  "generate_examples_section tp tn =
     u ''**Case Study: Tech Startup Success Story**\<newline>'' @
     u ''\<newline>'' @
     u ''A mid-stage startup implemented '' @ topic_clean tp @
     u '' as part of their growth strategy. Within six months, they achieved:\<newline>'' @
     u ''\<newline>'' @
     u ''- 45% reduction in deployment time\<newline>'' @
     u ''- 60% fewer production incidents\<newline>'' @
     u ''- 35% improvement in customer satisfaction scores\<newline>'' @
     u ''\<newline>'' @
     u ''**Industry Example: Enterprise Adoption**\<newline>'' @
     u ''\<newline>'' @
     u ''A Fortune 500 company rolled out '' @ topic_clean tp @
     u '' across 200+ teams globally. Key results included:\<newline>'' @
     u ''\<newline>'' @
     u ''- $2.3M in annual cost savings\<newline>'' @
     u ''- 50% faster feature delivery\<newline>'' @
     u ''- 80% reduction in manual processes\<newline>'' @
     u ''\<newline>'' @
     examples tn @ u '' consistently demonstrate that companies embracing '' @ topic_clean tp @
     u '' outperform their peers across virtually every measurable dimension.''"

text \<open>\<open>_generate_blog_conclusion\<close>.\<close>

definition generate_blog_conclusion ::
  "ustring \<Rightarrow> audience_profile \<Rightarrow> tone_template \<Rightarrow> ustring" where
  "generate_blog_conclusion tp aud tn =
     u ''The evidence is clear: '' @ topic_clean tp @
     u '' represents a fundamental shift in how successful organizations operate. Rather than being an optional enhancement, it's becoming a competitive necessity.\<newline>'' @
     u ''\<newline>'' @
     u ''**Key Takeaways:**\<newline>'' @
     u ''\<newline>'' @
     u ''- Strategic implementation delivers measurable ROI within months, not years\<newline>'' @
     u ''- Success depends on cultural adoption, not just technical implementation\<newline>'' @
     u ''- Continuous improvement and adaptation are essential for long-term success\<newline>'' @
     u ''\<newline>'' @
     u ''The question isn't whether to embrace '' @ topic_clean tp @
     u '', but how quickly you can get started. Organizations that delay implementation risk falling behind competitors who are already realizing the benefits.\<newline>'' @
     u ''\<newline>'' @
     u ''**Ready to Transform Your Organization?**\<newline>'' @
     u ''\<newline>'' @
     u ''The implementation journey begins with a single step'' @ [226, 8364, 8221] @
     u ''assessment of your current state and identification of immediate opportunities for improvement. With the right strategy and commitment, '' @
     topic_clean tp @
     u '' can transform your organization from reactive to proactive, from inefficient to optimized, and from good to great.''"

text \<open>
  \<open>_build_blog_structure\<close>. \<open>self.tone_templates[request.tone]\<close> raises \<open>KeyError\<close>
  for a tone that is not in the table.
\<close>

definition build_blog_structure ::
  "pyenv \<Rightarrow> ContentRequest \<Rightarrow> ustring \<Rightarrow> int \<Rightarrow> py_exception + ustring" where
  "build_blog_structure env request ttl wc =
     (let aud = get_audience (target_audience request)
      in case map_of tone_templates (tone request) of
           None \<Rightarrow> Inl (KeyError (tone request))
         | Some tn \<Rightarrow>
             let intro = generate_blog_introduction env (topic request) aud tn;
                 sections = [
                   (u ''The Problem'', generate_problem_section (topic request) aud),
                   (u ''The Solution'', generate_solution_section (topic request) aud tn),
                   (u ''Key Benefits'', generate_benefits_section (topic request) aud tn),
                   (u ''Implementation'', generate_implementation_section (topic request) aud),
                   (u ''Real-World Examples'', generate_examples_section (topic request) tn)];
                 conclusion = generate_blog_conclusion (topic request) aud tn;
                 content_parts =
                   [intro]
                   @ concat (map (\<lambda>(heading, section_content).
                                    [u ''## '' @ heading, section_content, []]) sections)
                   @ [u ''## Conclusion'', conclusion]
             in Inr (py_join (u ''\<newline>'') content_parts))"

text \<open>The list \<open>title_options\<close> of \<open>_generate_blog_content\<close>.\<close>

definition blog_title_options :: "ContentRequest \<Rightarrow> ustring list" where
  "blog_title_options request = [
     u ''The Ultimate Guide to '' @ topic request,
     u ''Why '' @ topic request @ u '' Matters More Than You Think'',
     u ''Transforming Your Business with '' @ topic request @ u '': A Complete Guide'',
     u ''The Hidden Benefits of '' @ topic request @ u '' You Need to Know'',
     u ''Mastering '' @ topic request @ u '': From Beginner to Expert'']"

text \<open>\<open>_generate_blog_content\<close>.\<close>

definition generate_blog_content ::
  "pyenv \<Rightarrow> ContentRequest \<Rightarrow> int \<Rightarrow> py_exception + ContentOutput" where
  "generate_blog_content env request variation_index =
     (let wc = or_else_int (word_count request) (get_default_word_count (u ''blog''));
          title_options = blog_title_options request;
          ttl = title_options ! nat (variation_index mod int (length title_options))
      in case build_blog_structure env request ttl wc of
           Inl e \<Rightarrow> Inl e
         | Inr text \<Rightarrow>
             let hs = extract_headings text;
                 cta = or_else_str (call_to_action request) (generate_default_cta env request);
                 tgs = (if include_seo request then generate_seo_tags env (topic request) else [])
             in Inr \<lparr>title = ttl, content = text, headings = hs,
                     out_call_to_action = Some cta, out_tags = TagList tgs,
                     out_word_count = count_words text\<rparr>)"

section \<open>The social media builder\<close>

text \<open>\<open>_generate_question_post\<close>; the audience is passed and not used.\<close>

definition generate_question_post :: "pyenv \<Rightarrow> ustring \<Rightarrow> ustring \<Rightarrow> int \<Rightarrow> ustring" where
  "generate_question_post env tp audience char_limit =
     (let questions = [
            u ''What's the biggest challenge you face with '' @ topic_clean tp @ u ''? '' @
            [240, 376, 164, 8221],
            u ''Have you tried implementing '' @ topic_clean tp @
            u '' in your organization? What worked? What didn't?'',
            u ''If you could improve one thing about '' @ topic_clean tp @ u '', what would it be?'',
            u ''What advice would you give someone starting with '' @ topic_clean tp @ u ''?''];
          base_question = questions ! nat (py_hash env tp mod int (length questions));
          context = u ''\<newline>'' @
                    u ''\<newline>'' @
                    [240, 376, 8217, 161] @
                    u '' Share your thoughts below! Learning from each other's experiences helps us all grow.'';
          hashtags = generate_social_tags env tp;
          full_post = base_question @ context @ u ''\<newline>'' @
                                                u ''\<newline>'' @ hashtags
      in truncate_to_limit full_post char_limit)"

text \<open>\<open>_generate_value_post\<close>.\<close>

definition generate_value_post :: "pyenv \<Rightarrow> ustring \<Rightarrow> ustring \<Rightarrow> int \<Rightarrow> ustring" where
  "generate_value_post env tp audience char_limit =
     (let value_posts = [
            [240, 376, 353, 8364] @ u '' '' @ topic_clean tp @
            u '' Tip: Most organizations overlook this key principle...'',
            [240, 376, 8217, 161] @ u '' Quick '' @ topic_clean tp @
            u '' insight: The difference between success and failure often comes down to this one thing:'',
            [226, 353, 161] @ u '' '' @ topic_clean tp @
            u '' Fact: Companies that do this correctly see 3x better results than those who don't'',
            [240, 376, 381, 175] @ u '' '' @ topic_clean tp @
            u '' Strategy: Stop focusing on tools, start focusing on this instead''];
          base_content = value_posts ! nat (py_hash env tp mod int (length value_posts));
          explanation =
            u ''\<newline>'' @
            u ''\<newline>'' @
            u ''Proper implementation requires understanding both the technical AND human elements. Many teams focus solely on the mechanics and miss the cultural transformation that drives success.'';
          hashtags = generate_social_tags env tp;
          full_post = base_content @ explanation @ u ''\<newline>'' @
                                                   u ''\<newline>'' @ hashtags
      in truncate_to_limit full_post char_limit)"

text \<open>\<open>_generate_story_post\<close>.\<close>

definition generate_story_post :: "pyenv \<Rightarrow> ustring \<Rightarrow> ustring \<Rightarrow> int \<Rightarrow> ustring" where
  "generate_story_post env tp audience char_limit =
     (let stories = [
            u ''When we first started implementing '' @ topic_clean tp @
            u '', we made every mistake in the book '' @ [240, 376, 732, 8230],
            u ''Two years ago, our team was struggling with '' @ topic_clean tp @
            u ''. Here's what changed everything...'',
            u ''I used to think '' @ topic_clean tp @
            u '' was just another business buzzword. Then I saw the results.'',
            u ''The most surprising thing about '' @ topic_clean tp @
            u ''? It wasn't what I expected at all...''];
          base_story = stories ! nat (py_hash env tp mod int (length stories));
          lesson =
            u ''\<newline>'' @
            u ''\<newline>'' @
            u ''Lesson learned: Success comes from consistent application of proven principles, not flashy tools or overnight transformations.'';
          hashtags = generate_social_tags env tp;
          full_post = base_story @ lesson @ u ''\<newline>'' @
                                            u ''\<newline>'' @ hashtags
      in truncate_to_limit full_post char_limit)"

text \<open>The character limits of \<open>_generate_social_content\<close>.\<close>

definition general_limit :: int where
  "general_limit = 300"

definition limits :: "(ustring \<times> int) list" where
  "limits = [(u ''twitter'', 280), (u ''linkedin'', 700),
             (u ''facebook'', 500), (u ''instagram'', 2200),
             (u ''general'', general_limit)]"

text \<open>The title that \<open>_generate_social_content\<close> gives to a variation index.\<close>

definition social_title :: "ContentRequest \<Rightarrow> int \<Rightarrow> ustring" where
  "social_title request variation_index =
     (if variation_index = 0 then u ''Quick Tip: '' @ topic request
      else if variation_index = 1 then topic request @ u '' Explained''
      else u ''My Experience with '' @ topic request)"

text \<open>\<open>_generate_social_content\<close>.\<close>

definition generate_social_content ::
  "pyenv \<Rightarrow> ContentRequest \<Rightarrow> int \<Rightarrow> py_exception + ContentOutput" where
  "generate_social_content env request variation_index =
     (let pf = or_else_str (platform request) (u ''general'');
          limit = (case map_of limits pf of Some l \<Rightarrow> l | None \<Rightarrow> general_limit);
          ttl = social_title request variation_index;
          text =
            (if variation_index = 0
             then generate_question_post env (topic request) (target_audience request) limit
             else if variation_index = 1
             then generate_value_post env (topic request) (target_audience request) limit
             else generate_story_post env (topic request) (target_audience request) limit);
          cta = generate_social_cta (topic request) pf;
          tgs = generate_social_tags env (topic request)
      in Inr \<lparr>title = ttl, content = text, headings = [],
              out_call_to_action = Some cta, out_tags = TagString tgs,
              out_word_count = length (py_split text)\<rparr>)"

section \<open>The newsletter builder\<close>

text \<open>The newsletter helper methods; audience and tone are passed and not used.\<close>

definition generate_newsletter_intro :: "ustring \<Rightarrow> ustring \<Rightarrow> ustring" where
  "generate_newsletter_intro tp audience =
     u ''In this week's newsletter, we're diving deep into '' @ topic_clean tp @
     u '' and its impact on modern business. Whether you're just getting started or looking to optimize your current approach, this edition has something for everyone.''"

definition generate_newsletter_main :: "ustring \<Rightarrow> ustring \<Rightarrow> ustring \<Rightarrow> ustring" where
  "generate_newsletter_main tp audience tone_name =
     u ''**Understanding '' @ topic_clean tp @ u ''**\<newline>'' @
     u ''\<newline>'' @
     u ''Recent industry data shows that organizations embracing '' @ topic_clean tp @
     u '' principles see significant improvements across multiple metrics:\<newline>'' @
     u ''\<newline>'' @
     [226, 8364, 162] @ u '' 35% faster project completion times\<newline>'' @
     [226, 8364, 162] @ u '' 40% reduction in manual errors  \<newline>'' @
     [226, 8364, 162] @ u '' 60% improvement in team collaboration\<newline>'' @
     u ''\<newline>'' @
     u ''But here's what's interesting: successful implementation isn't just about following processes'' @
     [226, 8364, 8221] @ u ''it's about creating a culture of continuous improvement.\<newline>'' @
     u ''\<newline>'' @
     u ''**Key Implementation Strategies:**\<newline>'' @
     u ''\<newline>'' @
     u ''1. **Start Small**: Begin with pilot projects in select teams\<newline>'' @
     u ''2. **Measure Everything**: Establish clear KPIs before implementation\<newline>'' @
     u ''3. **Communicate Value**: Ensure all stakeholders understand the benefits\<newline>'' @
     u ''4. **Iterate Quickly**: Use feedback loops to refine approaches\<newline>'' @
     u ''\<newline>'' @
     u ''The companies seeing the best results aren't those with the most sophisticated tools'' @
     [226, 8364, 8221] @
     u ''they're those with the clearest understanding of what they're trying to achieve.''"

definition generate_newsletter_featured :: "ustring \<Rightarrow> ustring" where
  "generate_newsletter_featured tp =
     u ''**Industry Spotlight**: This week, we're featuring how TechCorp successfully scaled '' @
     topic_clean tp @
     u '' across 500+ employees in just 4 months. Their secret? Focusing on human elements before technical implementation.\<newline>'' @
     u ''\<newline>'' @
     u ''**Quick Question**: What's been your biggest challenge with '' @ topic_clean tp @
     u '' implementation? Reply to this email and we'll feature the best insights in next week's edition.\<newline>'' @
     u ''\<newline>'' @
     u ''**Resource Spotlight**: Check out our updated '' @ topic_clean tp @
     u '' toolkit with 15 proven templates and frameworks.''"

definition generate_newsletter_conclusion :: "ustring \<Rightarrow> ustring" where
  "generate_newsletter_conclusion tp =
     u ''The future belongs to organizations that can adapt quickly and continuously improve. '' @
     topic_clean tp @
     u '' provides the framework for exactly that kind of transformation.\<newline>'' @
     u ''\<newline>'' @
     u ''Whether you're just beginning your journey or looking to take your current implementation to the next level, focus on the fundamentals: clear strategy, proper communication, and consistent execution.\<newline>'' @
     u ''\<newline>'' @
     u ''What questions do you have about '' @ topic_clean tp @ u ''? We'd love to hear from you'' @
     [226, 8364, 8221] @ u ''just reply to this email.''"

definition generate_newsletter_ps :: "ustring \<Rightarrow> ustring" where
  "generate_newsletter_ps tp =
     u ''Don't forget: '' @ topic_clean tp @
     u '' is a marathon, not a sprint. Take time to celebrate small wins along the way! '' @
     [240, 376, 381, 8240]"

text \<open>The list \<open>title_templates\<close> of \<open>_generate_newsletter_content\<close>.\<close>

definition newsletter_title_templates :: "ContentRequest \<Rightarrow> ustring list" where
  "newsletter_title_templates request = [
     u ''Weekly Insights: '' @ topic request,
     u ''The '' @ topic request @ u '' Newsletter'',
     u ''Trending: '' @ topic request @ u '' Update'',
     u ''Deep Dive: '' @ topic request]"

text \<open>\<open>_generate_newsletter_content\<close>.\<close>

definition generate_newsletter_content ::
  "pyenv \<Rightarrow> ContentRequest \<Rightarrow> int \<Rightarrow> py_exception + ContentOutput" where
  "generate_newsletter_content env request variation_index =
     (let wc = or_else_int (word_count request) 600;
          title_templates = newsletter_title_templates request;
          ttl = title_templates ! nat (variation_index mod int (length title_templates));
          intro_section = generate_newsletter_intro (topic request) (target_audience request);
          main_section =
            generate_newsletter_main (topic request) (target_audience request) (tone request);
          featured_section = generate_newsletter_featured (topic request);
          conclusion_section = generate_newsletter_conclusion (topic request);
          text =
            u ''## Welcome to This Week's Issue\<newline>'' @
            u ''\<newline>'' @
            intro_section @ u ''\<newline>'' @
            u ''\<newline>'' @
            u ''## Featured Article: '' @ topic request @ u ''\<newline>'' @
            u ''\<newline>'' @
            main_section @ u ''\<newline>'' @
            u ''\<newline>'' @
            u ''## What's Trending\<newline>'' @
            u ''\<newline>'' @
            featured_section @ u ''\<newline>'' @
            u ''\<newline>'' @
            u ''## Closing Thoughts\<newline>'' @
            u ''\<newline>'' @
            conclusion_section @ u ''\<newline>'' @
            u ''\<newline>'' @
            u ''---\<newline>'' @
            u ''P.S. '' @ generate_newsletter_ps (topic request) @ u ''\<newline>'';
          hs = extract_headings text;
          cta = u ''Subscribe to our weekly newsletter for more insights like this!''
      in Inr \<lparr>title = ttl, content = text, headings = hs,
              out_call_to_action = Some cta,
              out_tags = TagList (generate_seo_tags env (topic request)),
              out_word_count = count_words text\<rparr>)"

section \<open>The video script builder\<close>

text \<open>The video script helper methods.\<close>

definition generate_video_hook :: "ustring \<Rightarrow> ustring \<Rightarrow> ustring" where
  "generate_video_hook tp audience =
     u ''What if I told you that '' @ topic_clean tp @
     u '' could transform your business in ways you never imagined? Today, I'm going to share the exact framework that's helped dozens of companies achieve remarkable results.''"

definition generate_video_intro :: "ustring \<Rightarrow> ustring" where
  "generate_video_intro tp =
     u ''Hi everyone! I'm excited to talk about '' @ topic_clean tp @
     u '' today because I've seen firsthand how it can completely change how organizations operate. In the next few minutes, I'll walk you through what '' @
     topic_clean tp @
     u '' really means, why it matters, and most importantly, how you can implement it successfully.''"

definition generate_video_main_points :: "ustring \<Rightarrow> ustring \<Rightarrow> ustring" where
  "generate_video_main_points tp audience =
     u ''**Point 1: Understanding the Fundamentals**\<newline>'' @
     topic_clean tp @ u '' isn't just about processes'' @ [226, 8364, 8221] @
     u ''it's about mindset. The most successful implementations start with understanding WHY before jumping into HOW.\<newline>'' @
     u ''\<newline>'' @
     u ''**Point 2: Common Implementation Challenges**  \<newline>'' @
     u ''Most organizations struggle with three things: resistance to change, unclear objectives, and insufficient training. Here's how to avoid these pitfalls...\<newline>'' @
     u ''\<newline>'' @
     u ''[your_name] shares anecdotal evidence or real-world case study\<newline>'' @
     u ''\<newline>'' @
     u ''**Point 3: Building Sustainable Success**\<newline>'' @
     u ''Sustainable '' @ topic_clean tp @
     u '' implementation requires ongoing commitment and continuous learning. It's not a one-time project'' @
     [226, 8364, 8221] @ u ''it's an ongoing journey.''"

definition generate_video_demonstration :: "ustring \<Rightarrow> ustring" where
  "generate_video_demonstration tp =
     u ''Let me show you exactly how this works in practice. [Insert demonstration of '' @
     topic_clean tp @
     u '' principles in action] This real-world example shows the difference between theoretical knowledge and practical application.''"

definition generate_video_conclusion :: "ustring \<Rightarrow> ustring" where
  "generate_video_conclusion tp =
     topic_clean tp @ u '' isn't just another business trend'' @ [226, 8364, 8221] @
     u ''it's a fundamental shift in how successful organizations operate. The companies embracing these principles today are building sustainable competitive advantages that will serve them for years to come.\<newline>'' @
     u ''\<newline>'' @
     u ''Remember: Success comes from consistent application of proven principles, not perfection on day one.''"

definition generate_video_cta :: "ustring \<Rightarrow> ustring" where
  "generate_video_cta tp =
     u ''If you found this helpful, please like and subscribe for more content like this. And if you're ready to start your '' @
     topic_clean tp @
     u '' journey, check out the link in the description for our complete starter kit. Thanks for watching!''"

text \<open>
  \<open>duration_minutes - 0.5\<close> inside the f-string. The integer is converted to a float,
  which raises \<open>OverflowError\<close> when it rounds to \<open>2^1024\<close> or beyond. Below \<open>2^52\<close> in
  absolute value the difference is exact and prints as an integer part and \<open>.5\<close>;
  beyond, the interpreter's rendering is taken from the environment.
\<close>

definition float_overflows :: "int \<Rightarrow> bool" where
  "float_overflows d \<longleftrightarrow> 2 ^ 1024 - 2 ^ 970 \<le> \<bar>d\<bar>"

definition str_minus_half :: "pyenv \<Rightarrow> int \<Rightarrow> py_exception + ustring" where
  "str_minus_half env d =
     (if float_overflows d then Inl OverflowError
      else if \<bar>d\<bar> < 2 ^ 52 then
        Inr (if 1 \<le> d then str_int (d - 1) @ u ''.5'' else u ''-'' @ str_int (- d) @ u ''.5'')
      else Inr (float_repr env d))"

text \<open>The list \<open>title_templates\<close> of \<open>_generate_video_script\<close>.\<close>

definition video_title_templates :: "ContentRequest \<Rightarrow> ustring list" where
  "video_title_templates request = [
     u ''How '' @ topic request @ u '' is Changing Everything'',
     u ''The Complete Guide to '' @ topic request,
     topic request @ u '': What You Need to Know'',
     u ''Why '' @ topic request @ u '' Matters More Than Ever'']"

text \<open>\<open>_generate_video_script\<close>.\<close>

definition generate_video_script ::
  "pyenv \<Rightarrow> ContentRequest \<Rightarrow> int \<Rightarrow> py_exception + ContentOutput" where
  "generate_video_script env request variation_index =
     (let wc = or_else_int (word_count request) 1200;
          duration_minutes = wc div 150;
          title_templates = video_title_templates request;
          ttl = title_templates ! nat (variation_index mod int (length title_templates));
          hook = generate_video_hook (topic request) (target_audience request);
          intro = generate_video_intro (topic request);
          main_points = generate_video_main_points (topic request) (target_audience request);
          demonstration = generate_video_demonstration (topic request);
          conclusion = generate_video_conclusion (topic request);
          cta = generate_video_cta (topic request)
      in case str_minus_half env duration_minutes of
           Inl e \<Rightarrow> Inl e
         | Inr half \<Rightarrow>
             let text =
                   u ''# Video Script: '' @ ttl @ u ''\<newline>'' @
                   u ''**Duration: ~'' @ str_int duration_minutes @ u '' minutes**\<newline>'' @
                   u ''**Target Audience: '' @
                   py_title env (py_replace (u ''_'') (u '' '') (target_audience request)) @ u ''**\<newline>'' @
                   u ''\<newline>'' @
                   u ''## Hook (0-15 seconds)\<newline>'' @
                   hook @ u ''\<newline>'' @
                   u ''\<newline>'' @
                   u ''## Introduction (15-45 seconds)\<newline>'' @
                   intro @ u ''\<newline>'' @
                   u ''\<newline>'' @
                   u ''## Main Content (45 seconds - '' @ str_int (duration_minutes - 1) @
                   u '' minutes)\<newline>'' @
                   main_points @ u ''\<newline>'' @
                   u ''\<newline>'' @
                   u ''## Demonstration/Example ('' @ str_int (duration_minutes - 1) @ u ''-'' @ half @
                   u '' minutes)\<newline>'' @
                   demonstration @ u ''\<newline>'' @
                   u ''\<newline>'' @
                   u ''## Conclusion ('' @ half @ u ''-'' @ str_int duration_minutes @ u '' minutes)\<newline>'' @
                   conclusion @ u ''\<newline>'' @
                   u ''\<newline>'' @
                   u ''## Call to Action (final 15 seconds)\<newline>'' @
                   cta @ u ''\<newline>'' @
                   u ''\<newline>'' @
                   u ''## Production Notes\<newline>'' @
                   u ''- Include engaging visuals and graphics\<newline>'' @
                   u ''- Add subtitles for accessibility\<newline>'' @
                   u ''- Use energetic, clear delivery\<newline>'' @
                   u ''- Maintain eye contact with camera\<newline>'' @
                   u ''- Include relevant background music at low volume\<newline>'';
                 hs = extract_headings text
             in Inr \<lparr>title = ttl, content = text, headings = hs,
                     out_call_to_action = Some cta,
                     out_tags = TagList (generate_seo_tags env (topic request)),
                     out_word_count = count_words text\<rparr>)"

section \<open>The email campaign builder\<close>

text \<open>A dictionary lookup \<open>d[k]\<close>, which raises \<open>KeyError\<close> for a missing key.\<close>

definition lookup :: "(ustring \<times> 'a) list \<Rightarrow> ustring \<Rightarrow> py_exception + 'a" where
  "lookup d k = (case map_of d k of None \<Rightarrow> Inl (KeyError k) | Some v \<Rightarrow> Inr v)"

text \<open>\<open>_generate_email_subject\<close>.\<close>

definition generate_email_subject :: "pyenv \<Rightarrow> ustring \<Rightarrow> ustring \<Rightarrow> py_exception + ustring" where
  "generate_email_subject env tp campaign_type =
     (let subjects = [
            (u ''welcome'', [
               u ''Welcome to the '' @ topic_clean tp @ u '' Success Hub! '' @ [240, 376, 353, 8364],
               u ''Getting Started with '' @ topic_clean tp @ u '': Your Journey Begins Now'']),
            (u ''educational'', [
               u ''The Complete Guide to '' @ topic_clean tp @ u '' (Free)'',
               u ''Understanding '' @ topic_clean tp @ u '': What Everyone Gets Wrong'']),
            (u ''promotional'', [
               u ''Transform Your Business with '' @ topic_clean tp,
               topic_clean tp @ u '': The Secret Your Competitors Don't Know''])]
      in case lookup subjects campaign_type of
           Inl e \<Rightarrow> Inl e
         | Inr options \<Rightarrow> Inr (options ! nat (py_hash env tp mod int (length options))))"

text \<open>\<open>_generate_email_body\<close>.\<close>

definition generate_email_body :: "ustring \<Rightarrow> ustring \<Rightarrow> ustring \<Rightarrow> ustring" where
  "generate_email_body tp campaign_type audience =
     (if campaign_type = u ''welcome'' then
        u ''Hi there!\<newline>'' @
        u ''\<newline>'' @
        u ''Welcome to our community of '' @ topic_clean tp @ u '' practitioners! '' @
        [240, 376, 381, 8240] @ u ''\<newline>'' @
        u ''\<newline>'' @
        u ''You've just joined thousands of professionals who are transforming their organizations through strategic '' @
        topic_clean tp @ u '' implementation.\<newline>'' @
        u ''\<newline>'' @
        u ''Here's what you can expect:\<newline>'' @
        u ''\<newline>'' @
        [226, 339, 8220] @ u '' Weekly insights and best practices\<newline>'' @
        [226, 339, 8220] @ u '' Exclusive resources and templates  \<newline>'' @
        [226, 339, 8220] @ u '' Direct access to our expert team\<newline>'' @
        [226, 339, 8220] @ u '' Member-only webinars and workshops\<newline>'' @
        u ''\<newline>'' @
        u ''**Getting Started:**\<newline>'' @
        u ''1. Complete your profile in our member portal\<newline>'' @
        u ''2. Download your welcome package\<newline>'' @
        u ''3. Join our community discussion forum\<newline>'' @
        u ''\<newline>'' @
        u ''Ready to dive in? Click below to access your starter resources!\<newline>'' @
        u ''\<newline>'' @
        u ''Best regards,\<newline>'' @
        u ''The Team''
      else if campaign_type = u ''educational'' then
        u ''Hi,\<newline>'' @
        u ''\<newline>'' @
        u ''I wanted to share something important about '' @ topic_clean tp @
        u '' that most people miss.\<newline>'' @
        u ''\<newline>'' @
        u ''After analyzing hundreds of implementations, I've noticed a pattern:\<newline>'' @
        u ''\<newline>'' @
        u ''The successful companies aren't those with the biggest budgets or the latest tools'' @
        [226, 8364, 8221] @ u ''they're the ones that understand the fundamental principles behind '' @
        topic_clean tp @ u ''.\<newline>'' @
        u ''\<newline>'' @
        u ''**What Sets Successful Organizations Apart:**\<newline>'' @
        u ''\<newline>'' @
        u ''1. They start with clear objectives, not trendy tools\<newline>'' @
        u ''2. They focus on cultural adoption first, technical implementation second  \<newline>'' @
        u ''3. They measure progress continuously and adjust quickly\<newline>'' @
        u ''4. They invest in training and ongoing support\<newline>'' @
        u ''\<newline>'' @
        u ''**The 80/20 Rule of '' @ topic_clean tp @ u '':**\<newline>'' @
        u ''80% of your results come from 20% of the core principles. Master these fundamentals, and everything else becomes much easier.\<newline>'' @
        u ''\<newline>'' @
        u ''Want to learn the specific 20% that delivers massive results? \<newline>'' @
        u ''\<newline>'' @
        u ''Download our comprehensive guide (completely free) and discover the framework that's helped organizations achieve remarkable transformation.\<newline>'' @
        u ''\<newline>'' @
        u ''To your success,\<newline>'' @
        u ''[Your Name]''
      else
        u ''Hi [Name],\<newline>'' @
        u ''\<newline>'' @
        u ''What if I told you that in 90 days, you could transform how your organization operates with '' @
        topic_clean tp @ u ''?\<newline>'' @
        u ''\<newline>'' @
        u ''I know that seems ambitious, but I've seen it happen dozens of times.\<newline>'' @
        u ''\<newline>'' @
        u ''The secret isn't working harder'' @ [226, 8364, 8221] @
        u ''it's working smarter with proven frameworks that thousands of successful organizations use.\<newline>'' @
        u ''\<newline>'' @
        u ''**Here's What You Get:**\<newline>'' @
        u ''\<newline>'' @
        [226, 339, 8230] @ u '' Our complete '' @ topic_clean tp @
        u '' implementation toolkit\<newline>'' @
        [226, 339, 8230] @ u '' Access to our exclusive member community  \<newline>'' @
        [226, 339, 8230] @ u '' Personalized consultation with our experts\<newline>'' @
        [226, 339, 8230] @ u '' Ongoing support during your transformation\<newline>'' @
        u ''\<newline>'' @
        u ''**Special Offer (Limited Time):**\<newline>'' @
        u ''Normally $997, but as a valued subscriber, you can access everything for just $297.\<newline>'' @
        u ''\<newline>'' @
        u ''This includes everything you need to get started immediately:\<newline>'' @
        u ''- 25 proven templates and frameworks\<newline>'' @
        u ''- Video training series (5+ hours of content)\<newline>'' @
        u ''- Monthly group coaching calls\<newline>'' @
        u ''- Direct email support\<newline>'' @
        u ''\<newline>'' @
        u ''**But this offer expires at midnight tonight.**\<newline>'' @
        u ''\<newline>'' @
        u ''That's because we believe in results, not indefinite deliberation. If you're ready to transform your organization with '' @
        topic_clean tp @ u '', now's the time to act.\<newline>'' @
        u ''\<newline>'' @
        u ''Click below to secure your spot before it's too late.\<newline>'' @
        u ''\<newline>'' @
        u ''Best regards,\<newline>'' @
        u ''[Your Name]\<newline>'' @
        u ''\<newline>'' @
        u ''P.S. Questions? Just reply to this email'' @ [226, 8364, 8221] @
        u ''I personally read every response.'')"

text \<open>\<open>_generate_email_footer\<close>.\<close>

definition generate_email_footer :: "ustring \<Rightarrow> ustring" where
  "generate_email_footer tp =
     u ''---\<newline>'' @
     u ''**Need help implementing '' @ topic_clean tp @ u ''?** \<newline>'' @
     u ''Book a free consultation: [your-website.com/consultation]\<newline>'' @
     u ''\<newline>'' @
     u ''**Connect with us:**\<newline>'' @
     u ''Blog | LinkedIn | Twitter | YouTube\<newline>'' @
     u ''\<newline>'' @
     [194, 169] @ u '' 2024 Your Company Name. All rights reserved.\<newline>'' @
     u ''You received this email because you subscribed to our newsletter.\<newline>'' @
     u ''Unsubscribe | Update preferences''"

text \<open>\<open>_generate_email_cta\<close>.\<close>

definition generate_email_cta :: "ustring \<Rightarrow> ustring" where
  "generate_email_cta campaign_type =
     (case map_of [(u ''welcome'', u ''Access Your Starter Resources '' @ [226, 8224, 8217]),
                   (u ''educational'', u ''Download Free Guide '' @ [226, 8224, 8217]),
                   (u ''promotional'', u ''Claim Your Spot Now '' @ [226, 8224, 8217])] campaign_type
      of Some c \<Rightarrow> c | None \<Rightarrow> u ''Learn More '' @ [226, 8224, 8217])"

text \<open>The lists \<open>campaign_types\<close> and \<open>title_templates\<close> of \<open>_generate_email_campaign\<close>.\<close>

definition campaign_types :: "ustring list" where
  "campaign_types = [u ''welcome'', u ''educational'',
                     u ''promotional'']"

definition email_title_templates :: "ContentRequest \<Rightarrow> (ustring \<times> ustring list) list" where
  "email_title_templates request = [
     (u ''welcome'', [
        u ''Welcome to the '' @ topic request @ u '' Journey'',
        u ''Getting Started with '' @ topic request]),
     (u ''educational'', [
        u ''Understanding '' @ topic request @ u '': A Complete Guide'',
        u ''The Science Behind '' @ topic request]),
     (u ''promotional'', [
        u ''Transform Your Business with '' @ topic request,
        topic request @ u '': The Game-Changer You Need''])]"

text \<open>\<open>_generate_email_campaign\<close>.\<close>

definition generate_email_campaign ::
  "pyenv \<Rightarrow> ContentRequest \<Rightarrow> int \<Rightarrow> py_exception + ContentOutput" where
  "generate_email_campaign env request variation_index =
     (let wc = or_else_int (word_count request) 400;
          campaign_type = campaign_types ! nat (variation_index mod int (length campaign_types))
      in case lookup (email_title_templates request) campaign_type of
           Inl e \<Rightarrow> Inl e
         | Inr title_options \<Rightarrow>
             let ttl = title_options ! nat (variation_index mod int (length title_options))
             in case generate_email_subject env (topic request) campaign_type of
                  Inl e \<Rightarrow> Inl e
                | Inr subject_line \<Rightarrow>
                    let body = generate_email_body (topic request) campaign_type
                                 (target_audience request);
                        footer = generate_email_footer (topic request);
                        text =
                          u ''**Subject Line:** '' @ subject_line @ u ''\<newline>'' @
                          u ''\<newline>'' @
                          u ''---\<newline>'' @
                          u ''\<newline>'' @
                          u ''**Email Body:**\<newline>'' @
                          u ''\<newline>'' @
                          body @ u ''\<newline>'' @
                          u ''\<newline>'' @
                          u ''---\<newline>'' @
                          u ''\<newline>'' @
                          u ''**Footer:**\<newline>'' @
                          footer @ u ''\<newline>'';
                        hs = extract_headings text
                    in Inr \<lparr>title = ttl, content = text, headings = hs,
                            out_call_to_action = Some (generate_email_cta campaign_type),
                            out_tags = TagList (generate_seo_tags env (topic request)),
                            out_word_count = count_words text\<rparr>)"

section \<open>The analysis and the public operation\<close>

text \<open>\<open>_generate_communication_style\<close>.\<close>

definition generate_communication_style :: "ustring \<Rightarrow> ustring" where
  "generate_communication_style tone_name =
     (case map_of [
        (u ''professional'', u ''authoritative, credible, data-driven''),
        (u ''conversational'', u ''friendly, accessible, personal''),
        (u ''persuasive'', u ''compelling, benefit-focused, action-oriented''),
        (u ''informative'', u ''educational, clear, comprehensive''),
        (u ''humorous'', u ''entertaining, engaging, memorable'')] tone_name
      of Some s \<Rightarrow> s | None \<Rightarrow> u ''professional'')"

text \<open>\<open>_generate_communication_strategy\<close>.\<close>

definition generate_communication_strategy :: "pyenv \<Rightarrow> ContentRequest \<Rightarrow> ustring" where
  "generate_communication_strategy env request =
     (let aud = get_audience (target_audience request)
      in u ''\<newline>'' @
         u ''**Communication Strategy for '' @
         py_title env (py_replace (u ''_'') (u '' '') (target_audience request)) @ u '':**\<newline>'' @
         u ''\<newline>'' @
         u ''- **Primary interests**: '' @ py_join (u '', '') (take 3 (interests aud)) @
         u ''\<newline>'' @
         u ''- **Pain points**: '' @ py_join (u '', '') (take 3 (pain_points aud)) @ u ''\<newline>'' @
         u ''- **Communication style**: '' @ language aud @ u ''\<newline>'' @
         u ''- **Content tone**: '' @ generate_communication_style (tone request) @ u ''\<newline>'' @
         u ''- **Engagement approach**: Focus on practical applications and measurable outcomes\<newline>'')"

text \<open>
  \<open>', '.join(variation.tags[:5]) if variation.tags else 'None'\<close>: on a list the first
  five tags are joined, on a string its first five characters.
\<close>

fun key_tags :: "tags \<Rightarrow> ustring" where
  "key_tags (TagList ts) = (if ts \<noteq> [] then py_join (u '', '') (take 5 ts) else u ''None'')"
| "key_tags (TagString s) =
     (if s \<noteq> [] then py_join (u '', '') (map (\<lambda>c. [c]) (take 5 s)) else u ''None'')"

text \<open>
  \<open>format(s / n, '.0f')\<close> for natural numbers: the quotient rounded to the nearest
  integer, a tie to the even one. The float quotient rounds the same way for every sum
  below \<open>2^52\<close>.
\<close>

definition round_half_even :: "nat \<Rightarrow> nat \<Rightarrow> nat" where
  "round_half_even s n =
     (let q = s div n; r = s mod n
      in if 2 * r < n then q else if n < 2 * r then q + 1 else if even q then q else q + 1)"

text \<open>The lines that \<open>_generate_content_analysis\<close> adds for one variation.\<close>

definition variation_summary :: "nat \<Rightarrow> ContentOutput \<Rightarrow> ustring" where
  "variation_summary i variation =
     u ''\<newline>'' @
     u ''### Variation '' @ str_nat i @ u '': '' @ title variation @ u ''\<newline>''
     @ u ''- **Word Count**: '' @ str_nat (out_word_count variation) @ u ''\<newline>''
     @ u ''- **Call to Action**: '' @ str_option (out_call_to_action variation) @ u ''\<newline>''
     @ u ''- **Key Tags**: '' @ key_tags (out_tags variation) @ u ''\<newline>''"

text \<open>
  \<open>_generate_content_analysis\<close>. The average divides by \<open>len(variations)\<close>, which raises
  \<open>ZeroDivisionError\<close> on an empty list.
\<close>

definition generate_content_analysis ::
  "pyenv \<Rightarrow> ContentRequest \<Rightarrow> ContentOutput list \<Rightarrow> py_exception + ustring" where
  "generate_content_analysis env request variations =
     (if variations = [] then Inl ZeroDivisionError
      else
        let avg_word_count =
              str_nat (round_half_even (sum_list (map out_word_count variations))
                         (length variations));
            communication_strategy = generate_communication_strategy env request;
            analysis =
              u ''\<newline>'' @
              u ''# Content Generation Analysis\<newline>'' @
              u ''\<newline>'' @
              u ''## Overview\<newline>'' @
              u ''- **Topic**: '' @ topic request @ u ''\<newline>'' @
              u ''- **Content Type**: '' @ content_type request @ u ''\<newline>'' @
              u ''- **Target Audience**: '' @
              py_title env (py_replace (u ''_'') (u '' '') (target_audience request)) @ u ''\<newline>'' @
              u ''- **Tone**: '' @ py_title env (tone request) @ u ''\<newline>'' @
              u ''- **Average Word Count**: '' @ avg_word_count @ u '' words\<newline>'' @
              u ''\<newline>'' @
              u ''## Content Variations Summary\<newline>'';
            analysis = analysis
              @ concat (map (\<lambda>(i, variation). variation_summary i variation)
                          (zip [1 ..< Suc (length variations)] variations));
            analysis = analysis @ communication_strategy;
            analysis = analysis @
              u ''\<newline>'' @
              u ''## Recommendations\<newline>'' @
              u ''\<newline>'' @
              u ''1. **Best for Professional Use**: Variation 2 typically works best for B2B audiences\<newline>'' @
              u ''2. **Highest Engagement**: Variation 1 tends to generate more social shares\<newline>'' @
              u ''3. **SEO Optimization**: Include targeted keywords naturally throughout content\<newline>'' @
              u ''4. **Platform Adaptation**: Modify tone and length based on target platform\<newline>'' @
              u ''\<newline>'' @
              u ''## Next Steps\<newline>'' @
              u ''\<newline>'' @
              u ''1. Review all variations and select the best fit for your objectives\<newline>'' @
              u ''2. Customize selected content with your brand voice and specific examples\<newline>'' @
              u ''3. Add relevant images, links, and formatting for optimal presentation\<newline>'' @
              u ''4. Schedule publication timing for maximum audience engagement\<newline>''
        in Inr analysis)"

text \<open>The dictionary \<open>self.content_types\<close>.\<close>

definition content_types ::
  "(ustring \<times> (pyenv \<Rightarrow> ContentRequest \<Rightarrow> int \<Rightarrow> py_exception + ContentOutput)) list" where
  "content_types = [
     (u ''blog'', generate_blog_content),
     (u ''social_media'', generate_social_content),
     (u ''newsletter'', generate_newsletter_content),
     (u ''video_script'', generate_video_script),
     (u ''email_campaign'', generate_email_campaign)]"

text \<open>\<open>_generate_single_variation\<close>.\<close>

definition generate_single_variation ::
  "pyenv \<Rightarrow> ContentRequest \<Rightarrow> int \<Rightarrow> py_exception + ContentOutput" where
  "generate_single_variation env request variation_index =
     (case lookup content_types (content_type request) of
        Inl e \<Rightarrow> Inl e
      | Inr build \<Rightarrow> build env request variation_index)"

text \<open>The loop \<open>for i in range(3)\<close> of \<open>generate_content\<close>, over the indices left.\<close>

fun generate_variations ::
  "pyenv \<Rightarrow> ContentRequest \<Rightarrow> int list \<Rightarrow> py_exception + ContentOutput list" where
  "generate_variations env request [] = Inr []"
| "generate_variations env request (i # rest) =
     (case generate_single_variation env request i of
        Inl e \<Rightarrow> Inl e
      | Inr variation \<Rightarrow>
          (case generate_variations env request rest of
             Inl e \<Rightarrow> Inl e
           | Inr variations \<Rightarrow> Inr (variation # variations)))"

text \<open>
  \<open>generate_content\<close>. Whatever is raised inside the \<open>try\<close> block is caught and raised
  again as the one \<open>Exception\<close> of the operation.
\<close>

definition generate_content ::
  "pyenv \<Rightarrow> ContentRequest \<Rightarrow> generation_error + (ContentOutput list \<times> ustring)" where
  "generate_content env request =
     (case
        (if map_of content_types (content_type request) = None
         then Inl (ValueError (u ''Unsupported content type: '' @ content_type request))
         else
           case generate_variations env request [0, 1, 2] of
             Inl e \<Rightarrow> Inl e
           | Inr variations \<Rightarrow>
               (case generate_content_analysis env request variations of
                  Inl e \<Rightarrow> Inl e
                | Inr analysis \<Rightarrow> Inr (variations, analysis)))
      of Inl e \<Rightarrow> Inl (GenerationFailed e)
       | Inr result \<Rightarrow> Inr result)"

section \<open>A process environment for concrete evaluations\<close>

text \<open>
  One admissible choice of what the interpreter fixes: the hash of a string is its
  length, a set lists its members in the order of their last occurrence, and the
  renderings outside the modelled ranges leave their argument as it is.
\<close>

definition env0 :: pyenv where
  "env0 = \<lparr>py_hash = (\<lambda>s. int (length s)), set_order = remdups,
           unicode_lower = (\<lambda>s. s), unicode_title = (\<lambda>s. s),
           float_repr = (\<lambda>d. str_int d)\<rparr>"

text \<open>The request of the example at the end of \<open>content_agent.py\<close>.\<close>

definition example_request :: ContentRequest where
  "example_request =
     \<lparr>topic = u ''Benefits of DevOps for Startups'', content_type = u ''blog'',
      target_audience = u ''startup_founders'', tone = u ''professional'',
      word_count = None, platform = None, call_to_action = None,
      include_examples = True, include_seo = True\<rparr>"

section \<open>The normalization as the specification words it\<close>


section \<open>Facts about the built-ins and the truncator\<close>

lemma rfind_upper: "rfind c xs < int (length xs)"
  by (induction xs) (auto simp: Let_def)

lemma rfind_nth: "0 \<le> rfind c xs \<Longrightarrow> xs ! nat (rfind c xs) = c"
proof (induction xs)
  case Nil
  then show ?case by simp
next
  case (Cons x xs)
  show ?case
  proof (cases "0 \<le> rfind c xs")
    case True
    then have "nat (rfind c xs + 1) = Suc (nat (rfind c xs))" by simp
    with True Cons.IH show ?thesis by (simp add: Let_def)
  next
    case False
    with Cons.prems show ?thesis by (simp add: Let_def split: if_splits)
  qed
qed

lemma rfind_append_notin: "c \<notin> set ys \<Longrightarrow> rfind c (xs @ ys) = rfind c xs"
proof (induction xs)
  case Nil
  then show ?case by (induction ys) (auto simp: Let_def)
next
  case (Cons x xs)
  then show ?case by (simp add: Let_def)
qed

lemma ellipsis_length: "length (u ''...'') = 3"
  by (simp add: u_def)

lemma ellipsis_no_space: "32 \<notin> set (take n (u ''...''))"
proof
  assume "32 \<in> set (take n (u ''...''))"
  then have "32 \<in> set (u ''...'')" by (rule in_set_takeD)
  then show False by (simp add: u_def)
qed

lemma truncate_fits: "int (length text) \<le> l \<Longrightarrow> truncate_to_limit text l = text"
  by (simp add: truncate_to_limit_def)

lemma truncate_hard:
  "\<not> int (length text) \<le> l \<Longrightarrow> \<not> 5 * rfind 32 (slice_to l text) > 4 * l \<Longrightarrow>
   truncate_to_limit text l = slice_to l text @ u ''...''"
  by (simp add: truncate_to_limit_def Let_def)

lemma truncate_space:
  "\<not> int (length text) \<le> l \<Longrightarrow> 5 * rfind 32 (slice_to l text) > 4 * l \<Longrightarrow>
   truncate_to_limit text l = slice_to (rfind 32 (slice_to l text)) (slice_to l text) @ u ''...''"
  by (simp add: truncate_to_limit_def Let_def)

lemma slice_to_nonneg: "0 \<le> k \<Longrightarrow> slice_to k s = take (nat k) s"
  by (simp add: slice_to_def)

lemma truncate_bound:
  assumes "0 \<le> l"
  shows "int (length (truncate_to_limit text l)) \<le> l + int (length (u ''...''))"
proof (cases "int (length text) \<le> l")
  case True
  then show ?thesis by (simp add: truncate_fits)
next
  case False
  show ?thesis
  proof (cases "5 * rfind 32 (slice_to l text) > 4 * l")
    case True
    with assms have "0 \<le> rfind 32 (slice_to l text)" by linarith
    moreover have "rfind 32 (slice_to l text) < int (length (slice_to l text))"
      by (rule rfind_upper)
    ultimately show ?thesis using False True assms
      by (simp add: truncate_space slice_to_nonneg)
  next
    case F2: False
    with False assms show ?thesis by (simp add: truncate_hard slice_to_nonneg)
  qed
qed

lemma truncate_cut_at_space:
  assumes "0 \<le> l" and "l < int (length text)"
    and "4 * l < 5 * rfind 32 (slice_to l text)"
  shows "\<exists>k. int k = rfind 32 (slice_to l text) \<and> k < nat l \<and> text ! k = 32
           \<and> truncate_to_limit text l = take k text @ u ''...''"
proof -
  let ?tr = "slice_to l text"
  let ?ls = "rfind 32 ?tr"
  have tr: "?tr = take (nat l) text" using assms(1) by (rule slice_to_nonneg)
  have len: "length ?tr = nat l" using assms(1,2) by (simp add: tr)
  have pos: "0 \<le> ?ls" using assms(1,3) by linarith
  have up: "?ls < int (length ?tr)" by (rule rfind_upper)
  then have lt: "nat ?ls < nat l" using pos len by linarith
  have "?tr ! nat ?ls = 32" using pos by (rule rfind_nth)
  then have at: "text ! nat ?ls = 32" using lt by (simp add: tr)
  define k where "k = nat ?ls"
  have kl: "k < nat l" using lt by (simp add: k_def)
  have "truncate_to_limit text l = slice_to ?ls ?tr @ u ''...''"
    using assms(2,3) by (simp add: truncate_space)
  also have "slice_to ?ls ?tr = take k ?tr"
    unfolding k_def using pos by (rule slice_to_nonneg)
  also have "take k ?tr = take k (take (nat l) text)" by (simp only: tr)
  also have "\<dots> = take k text" using kl by (simp add: min_absorb2)
  finally have "truncate_to_limit text l = take k text @ u ''...''" .
  moreover have "int k = ?ls" using pos by (simp add: k_def)
  moreover have "text ! k = 32" using at by (simp add: k_def)
  ultimately show ?thesis using kl by blast
qed

section \<open>Facts about the tags and the builders\<close>

lemma env0_ok: "env_ok env0"
  by (simp add: env_ok_def env0_def)

lemma stop_words_not_base: "set stop_words \<inter> set base_tags = {}"
  by (simp add: stop_words_def base_tags_def u_def)

lemma seo_tags_subset: "set (generate_seo_tags env tp) \<subseteq> set (seo_tag_set env tp)"
  unfolding generate_seo_tags_def by (rule set_take_subset)

lemma seo_tag_set_members:
  "env_ok env \<Longrightarrow> set (seo_tag_set env tp) = set base_tags \<union> set (specific_tags env tp)"
  by (simp add: env_ok_def seo_tag_set_def)

lemma specific_tags_no_stop: "set stop_words \<inter> set (specific_tags env tp) = {}"
  by (auto simp: specific_tags_def)

lemma social_Inr:
  "generate_social_content env r i = Inr v \<Longrightarrow>
     title v = social_title r i \<and> headings v = []
     \<and> out_tags v = TagString (generate_social_tags env (topic r))
     \<and> out_word_count v = count_words (content v)"
  by (auto simp: generate_social_content_def Let_def count_words_def)

lemma social_total: "\<exists>v. generate_social_content env r i = Inr v"
  by (simp add: generate_social_content_def Let_def)

lemma newsletter_Inr:
  "generate_newsletter_content env r i = Inr v \<Longrightarrow>
     title v = newsletter_title_templates r ! nat (i mod int (length (newsletter_title_templates r)))
     \<and> out_tags v = TagList (generate_seo_tags env (topic r))
     \<and> out_word_count v = count_words (content v)"
  by (auto simp: generate_newsletter_content_def Let_def)

lemma newsletter_total: "\<exists>v. generate_newsletter_content env r i = Inr v"
  by (simp add: generate_newsletter_content_def Let_def)

lemma video_Inr:
  "generate_video_script env r i = Inr v \<Longrightarrow>
     title v = video_title_templates r ! nat (i mod int (length (video_title_templates r)))
     \<and> out_tags v = TagList (generate_seo_tags env (topic r))
     \<and> out_word_count v = count_words (content v)"
  by (auto simp: generate_video_script_def Let_def split: sum.splits)

lemma video_fail:
  "float_overflows (or_else_int (word_count r) 1200 div 150) \<Longrightarrow>
   generate_video_script env r i = Inl OverflowError"
  by (simp add: generate_video_script_def Let_def str_minus_half_def)

lemma video_total:
  "\<not> float_overflows (or_else_int (word_count r) 1200 div 150) \<Longrightarrow>
   \<exists>v. generate_video_script env r i = Inr v"
  by (simp add: generate_video_script_def Let_def str_minus_half_def)

lemma blog_Inr:
  "generate_blog_content env r i = Inr v \<Longrightarrow>
     title v = blog_title_options r ! nat (i mod int (length (blog_title_options r)))
     \<and> out_tags v = TagList (if include_seo r then generate_seo_tags env (topic r) else [])
     \<and> out_word_count v = count_words (content v)"
  by (auto simp: generate_blog_content_def Let_def split: sum.splits)

lemma blog_fail:
  "map_of tone_templates (tone r) = None \<Longrightarrow>
   generate_blog_content env r i = Inl (KeyError (tone r))"
  by (simp add: generate_blog_content_def build_blog_structure_def Let_def)

lemma blog_total:
  "map_of tone_templates (tone r) \<noteq> None \<Longrightarrow> \<exists>v. generate_blog_content env r i = Inr v"
  by (auto simp: generate_blog_content_def build_blog_structure_def Let_def)

section \<open>Facts about the dispatch and the public operation\<close>

lemma campaign_type_cases:
  "campaign_types ! nat (i mod int (length campaign_types)) = u ''welcome''
   \<or> campaign_types ! nat (i mod int (length campaign_types)) = u ''educational''
   \<or> campaign_types ! nat (i mod int (length campaign_types)) = u ''promotional''"
proof -
  have len: "int (length campaign_types) = 3" by (simp add: campaign_types_def)
  have "0 \<le> i mod 3" and "i mod 3 < 3" by simp_all
  then have "nat (i mod 3) = 0 \<or> nat (i mod 3) = 1 \<or> nat (i mod 3) = 2" by linarith
  then show ?thesis unfolding len by (auto simp: campaign_types_def)
qed

lemma campaign_keys_distinct:
  "u ''welcome'' \<noteq> u ''educational''" "u ''welcome'' \<noteq> u ''promotional''"
  "u ''educational'' \<noteq> u ''promotional''" "u ''educational'' \<noteq> u ''welcome''"
  "u ''promotional'' \<noteq> u ''welcome''" "u ''promotional'' \<noteq> u ''educational''"
  by (simp_all add: u_def)

lemma email_titles_lookup:
  assumes "c = u ''welcome'' \<or> c = u ''educational'' \<or> c = u ''promotional''"
  shows "\<exists>ts. lookup (email_title_templates r) c = Inr ts \<and> length ts = 2"
  using assms by (auto simp: lookup_def email_title_templates_def campaign_keys_distinct)

lemma email_subject_total:
  assumes "c = u ''welcome'' \<or> c = u ''educational'' \<or> c = u ''promotional''"
  shows "\<exists>s. generate_email_subject env tp c = Inr s"
  using assms by (auto simp: generate_email_subject_def lookup_def Let_def campaign_keys_distinct)

lemma email_total: "\<exists>v. generate_email_campaign env r i = Inr v"
proof -
  let ?c = "campaign_types ! nat (i mod int (length campaign_types))"
  obtain ts where ts: "lookup (email_title_templates r) ?c = Inr ts"
    using email_titles_lookup [OF campaign_type_cases] by blast
  obtain s where s: "generate_email_subject env (topic r) ?c = Inr s"
    using email_subject_total [OF campaign_type_cases] by blast
  show ?thesis by (simp add: generate_email_campaign_def Let_def ts s)
qed

lemma email_Inr:
  "generate_email_campaign env r i = Inr v \<Longrightarrow>
     out_tags v = TagList (generate_seo_tags env (topic r))
     \<and> out_word_count v = count_words (content v)"
  by (auto simp: generate_email_campaign_def Let_def split: sum.splits)

lemma content_type_keys:
  "map fst content_types
     = [u ''blog'', u ''social_media'', u ''newsletter'', u ''video_script'', u ''email_campaign'']"
  by (simp add: content_types_def)

lemma single_variation_blog:
  "content_type r = u ''blog'' \<Longrightarrow>
   generate_single_variation env r i = generate_blog_content env r i"
  by (simp add: generate_single_variation_def lookup_def content_types_def)

lemma single_variation_social:
  "content_type r = u ''social_media'' \<Longrightarrow>
   generate_single_variation env r i = generate_social_content env r i"
  by (simp add: generate_single_variation_def lookup_def content_types_def u_def)

lemma single_variation_newsletter:
  "content_type r = u ''newsletter'' \<Longrightarrow>
   generate_single_variation env r i = generate_newsletter_content env r i"
  by (simp add: generate_single_variation_def lookup_def content_types_def u_def)

lemma single_variation_video:
  "content_type r = u ''video_script'' \<Longrightarrow>
   generate_single_variation env r i = generate_video_script env r i"
  by (simp add: generate_single_variation_def lookup_def content_types_def u_def)

lemma single_variation_email:
  "content_type r = u ''email_campaign'' \<Longrightarrow>
   generate_single_variation env r i = generate_email_campaign env r i"
  by (simp add: generate_single_variation_def lookup_def content_types_def u_def)

lemma recognized_cases:
  assumes "content_type r \<in> fst ` set content_types"
  shows "content_type r = u ''blog'' \<or> content_type r = u ''social_media''
       \<or> content_type r = u ''newsletter'' \<or> content_type r = u ''video_script''
       \<or> content_type r = u ''email_campaign''"
proof -
  have "fst ` set content_types = set (map fst content_types)" by simp
  with assms show ?thesis unfolding content_type_keys by auto
qed

lemma single_variation_word_count:
  assumes "generate_single_variation env r i = Inr v"
  shows "out_word_count v = count_words (content v)"
proof -
  from assms have "map_of content_types (content_type r) \<noteq> None"
    by (auto simp: generate_single_variation_def lookup_def split: option.splits)
  then have "content_type r \<in> fst ` set content_types"
    by (simp add: map_of_eq_None_iff)
  from recognized_cases [OF this] assms show ?thesis
    by (auto simp: single_variation_blog single_variation_social single_variation_newsletter
        single_variation_video single_variation_email
        dest: blog_Inr social_Inr newsletter_Inr video_Inr email_Inr)
qed

lemma variations_Inr:
  "generate_variations env r idx = Inr vs \<Longrightarrow>
   list_all2 (\<lambda>i v. generate_single_variation env r i = Inr v) idx vs"
  by (induction idx arbitrary: vs) (auto split: sum.splits)

lemma variations_total:
  "list_all (\<lambda>i. \<exists>v. generate_single_variation env r i = Inr v) idx \<Longrightarrow>
   \<exists>vs. generate_variations env r idx = Inr vs"
  by (induction idx) auto

lemma analysis_total:
  "vs \<noteq> [] \<Longrightarrow> \<exists>a. generate_content_analysis env r vs = Inr a"
  by (simp add: generate_content_analysis_def Let_def)


lemma generate_content_known:
  "content_type r \<in> fst ` set content_types \<Longrightarrow>
   generate_content env r =
     (case generate_variations env r [0, 1, 2] of
        Inl e \<Rightarrow> Inl (GenerationFailed e)
      | Inr vs \<Rightarrow>
          (case generate_content_analysis env r vs of
             Inl e \<Rightarrow> Inl (GenerationFailed e)
           | Inr a \<Rightarrow> Inr (vs, a)))"
  by (auto simp: generate_content_def map_of_eq_None_iff split: sum.splits)

lemma generate_content_all_ok:
  assumes known: "content_type r \<in> fst ` set content_types"
    and ok: "\<And>i. \<exists>v. generate_single_variation env r i = Inr v"
  shows "\<exists>vs a. generate_content env r = Inr (vs, a) \<and> length vs = 3
           \<and> list_all (\<lambda>v. out_word_count v = count_words (content v)) vs"
proof -
  have "list_all (\<lambda>i. \<exists>v. generate_single_variation env r i = Inr v) [0, 1, 2]"
    using ok by simp
  then obtain vs where vs: "generate_variations env r [0, 1, 2] = Inr vs"
    using variations_total by blast
  from variations_Inr [OF vs]
  have rel: "list_all2 (\<lambda>i v. generate_single_variation env r i = Inr v) [0, 1, 2] vs" .
  then have len: "length vs = 3" by (auto dest: list_all2_lengthD)
  have wc: "list_all (\<lambda>v. out_word_count v = count_words (content v)) vs"
    unfolding list_all_length
  proof (intro allI impI)
    fix k assume "k < length vs"
    with rel have "generate_single_variation env r ([0, 1, 2] ! k) = Inr (vs ! k)"
      by (simp add: list_all2_conv_all_nth)
    then show "out_word_count (vs ! k) = count_words (content (vs ! k))"
      by (rule single_variation_word_count)
  qed
  from len have "vs \<noteq> []" by auto
  then obtain a where "generate_content_analysis env r vs = Inr a"
    using analysis_total by blast
  with vs have "generate_content env r = Inr (vs, a)"
    by (simp add: generate_content_known [OF known])
  with len wc show ?thesis by blast
qed

lemma generate_content_first_fails:
  assumes known: "content_type r \<in> fst ` set content_types"
    and bad: "generate_single_variation env r 0 = Inl e"
  shows "generate_content env r = Inl (GenerationFailed e)"
  using bad by (simp add: generate_content_known [OF known])

lemma example_request_fields:
  "topic example_request = u ''Benefits of DevOps for Startups''"
  "content_type example_request = u ''blog''"
  "tone example_request = u ''professional''"
  "word_count example_request = None"
  "include_seo example_request = True"
  by (simp_all add: example_request_def)

lemma tone_keys:
  "map fst tone_templates
     = [u ''professional'', u ''conversational'', u ''persuasive'', u ''informative'',
        u ''humorous'']"
  by (simp add: tone_templates_def)

lemma tone_unknown_iff: "map_of tone_templates t = None \<longleftrightarrow> t \<notin> fst ` set tone_templates"
  by (rule map_of_eq_None_iff)

lemma single_variation_total:
  assumes known: "content_type r \<in> fst ` set content_types"
    and tone_ok: "content_type r = u ''blog'' \<longrightarrow> tone r \<in> fst ` set tone_templates"
    and float_ok: "content_type r = u ''video_script'' \<longrightarrow>
                    \<not> float_overflows (or_else_int (word_count r) 1200 div 150)"
  shows "\<exists>v. generate_single_variation env r i = Inr v"
  using recognized_cases [OF known]
proof (elim disjE)
  assume ct: "content_type r = u ''blog''"
  with tone_ok have "map_of tone_templates (tone r) \<noteq> None" by (simp add: tone_unknown_iff)
  from blog_total [OF this] show ?thesis by (simp add: single_variation_blog [OF ct])
next
  assume ct: "content_type r = u ''social_media''"
  show ?thesis using social_total by (simp add: single_variation_social [OF ct])
next
  assume ct: "content_type r = u ''newsletter''"
  show ?thesis using newsletter_total by (simp add: single_variation_newsletter [OF ct])
next
  assume ct: "content_type r = u ''video_script''"
  with float_ok have "\<not> float_overflows (or_else_int (word_count r) 1200 div 150)" by simp
  from video_total [OF this] show ?thesis by (simp add: single_variation_video [OF ct])
next
  assume ct: "content_type r = u ''email_campaign''"
  show ?thesis using email_total by (simp add: single_variation_email [OF ct])
qed

lemma blog_is_known: "u ''blog'' \<in> fst ` set content_types"
  by (simp add: content_types_def)

lemma video_is_known: "u ''video_script'' \<in> fst ` set content_types"
  by (simp add: content_types_def)

lemma generate_content_blog_unknown_tone:
  assumes "content_type r = u ''blog''" and "tone r \<notin> fst ` set tone_templates"
  shows "generate_content env r = Inl (GenerationFailed (KeyError (tone r)))"
proof -
  have known: "content_type r \<in> fst ` set content_types"
    using assms(1) blog_is_known by simp
  have "map_of tone_templates (tone r) = None" using assms(2) by (simp add: tone_unknown_iff)
  then have "generate_single_variation env r 0 = Inl (KeyError (tone r))"
    by (simp add: single_variation_blog [OF assms(1)] blog_fail)
  then show ?thesis by (rule generate_content_first_fails [OF known])
qed

lemma generate_content_video_overflow:
  assumes "content_type r = u ''video_script''"
    and "float_overflows (or_else_int (word_count r) 1200 div 150)"
  shows "generate_content env r = Inl (GenerationFailed OverflowError)"
proof -
  have known: "content_type r \<in> fst ` set content_types"
    using assms(1) video_is_known by simp
  have "generate_single_variation env r 0 = Inl OverflowError"
    by (simp add: single_variation_video [OF assms(1)] video_fail [OF assms(2)])
  then show ?thesis by (rule generate_content_first_fails [OF known])
qed

lemma float_overflows_power: "float_overflows (2 ^ 1024)"
proof -
  have g: "a - b \<le> \<bar>a\<bar>" if "0 \<le> a" and "0 \<le> b" for a b :: int
    using that by linarith
  have "(2::int) ^ 1024 - 2 ^ 970 \<le> \<bar>2 ^ 1024\<bar>"
    by (rule g) (rule zero_le_power, simp)+
  then show ?thesis by (simp only: float_overflows_def)
qed

lemma float_overflows_sample:
  "float_overflows (or_else_int (Some (150 * 2 ^ 1024)) 1200 div 150)"
proof -
  have nz: "(150::int) * 2 ^ 1024 \<noteq> 0"
    by (simp only: mult_eq_0_iff power_eq_0_iff) simp
  have dv: "((150::int) * 2 ^ 1024) div 150 = 2 ^ 1024"
    by (rule nonzero_mult_div_cancel_left) simp
  have "or_else_int (Some (150 * 2 ^ 1024)) 1200 = 150 * 2 ^ 1024"
    using nz by (simp only: or_else_int_def option.case if_False)
  then show ?thesis by (simp only: dv float_overflows_power)
qed

section \<open>Facts about titles, flags and the word count\<close>

lemma tone_known_iff:
  "t \<in> fst ` set tone_templates \<longleftrightarrow>
   t \<in> set [u ''professional'', u ''conversational'', u ''persuasive'', u ''informative'',
        u ''humorous'']"
proof -
  have "fst ` set tone_templates = set (map fst tone_templates)" by simp
  then show ?thesis by (simp only: tone_keys)
qed

lemma blog_titles_length: "length (blog_title_options r) = 5"
  by (simp add: blog_title_options_def)

lemma newsletter_titles_length: "length (newsletter_title_templates r) = 4"
  by (simp add: newsletter_title_templates_def)

lemma video_titles_length: "length (video_title_templates r) = 4"
  by (simp add: video_title_templates_def)

lemma email_Inr_title:
  assumes "generate_email_campaign env r i = Inr v"
  shows "\<exists>ts. lookup (email_title_templates r) (campaign_types ! nat (i mod 3)) = Inr ts
           \<and> length ts = 2 \<and> title v = ts ! nat (i mod 2)"
proof -
  have len: "int (length campaign_types) = 3" by (simp add: campaign_types_def)
  let ?c = "campaign_types ! nat (i mod int (length campaign_types))"
  obtain ts where ts: "lookup (email_title_templates r) ?c = Inr ts" and l2: "length ts = 2"
    using email_titles_lookup [OF campaign_type_cases] by blast
  from assms have "title v = ts ! nat (i mod int (length ts))"
    by (auto simp: generate_email_campaign_def Let_def ts split: sum.splits)
  with ts l2 show ?thesis unfolding len by simp
qed

lemma social_title_list:
  assumes "i = 0 \<or> i = 1 \<or> i = 2"
  shows "social_title r i
     = [u ''Quick Tip: '' @ topic r, topic r @ u '' Explained'',
        u ''My Experience with '' @ topic r] ! nat i"
  using assms by (auto simp: social_title_def)

lemma newsletter_ignores_seo:
  "generate_newsletter_content env (r\<lparr>include_seo := b\<rparr>) i = generate_newsletter_content env r i"
  by (simp add: generate_newsletter_content_def newsletter_title_templates_def Let_def)

lemma video_ignores_seo:
  "generate_video_script env (r\<lparr>include_seo := b\<rparr>) i = generate_video_script env r i"
  by (simp add: generate_video_script_def video_title_templates_def Let_def cong: sum.case_cong)

lemma email_ignores_seo:
  "generate_email_campaign env (r\<lparr>include_seo := b\<rparr>) i = generate_email_campaign env r i"
  by (simp add: generate_email_campaign_def email_title_templates_def Let_def cong: sum.case_cong)

lemma social_ignores_seo:
  "generate_social_content env (r\<lparr>include_seo := b\<rparr>) i = generate_social_content env r i"
  by (simp add: generate_social_content_def social_title_def Let_def)

lemma blog_ignores_word_count:
  "generate_blog_content env (r\<lparr>word_count := w\<rparr>) i = generate_blog_content env r i"
  by (simp add: generate_blog_content_def build_blog_structure_def blog_title_options_def
      generate_default_cta_def Let_def cong: sum.case_cong option.case_cong)

lemma social_ignores_word_count:
  "generate_social_content env (r\<lparr>word_count := w\<rparr>) i = generate_social_content env r i"
  by (simp add: generate_social_content_def social_title_def Let_def)

lemma newsletter_ignores_word_count:
  "generate_newsletter_content env (r\<lparr>word_count := w\<rparr>) i
     = generate_newsletter_content env r i"
  by (simp add: generate_newsletter_content_def newsletter_title_templates_def Let_def)

lemma email_ignores_word_count:
  "generate_email_campaign env (r\<lparr>word_count := w\<rparr>) i = generate_email_campaign env r i"
  by (simp add: generate_email_campaign_def email_title_templates_def Let_def
      cong: sum.case_cong)

lemma analysis_ignores_word_count:
  "generate_content_analysis env (r\<lparr>word_count := w\<rparr>) vs = generate_content_analysis env r vs"
  by (simp add: generate_content_analysis_def generate_communication_strategy_def Let_def)

lemma variations_cong:
  "(\<And>i. generate_single_variation env r i = generate_single_variation env' r' i) \<Longrightarrow>
   generate_variations env r idx = generate_variations env' r' idx"
  by (induction idx) (simp_all cong: sum.case_cong)

lemma generate_content_cong:
  assumes "content_type r = content_type r'"
    and "\<And>i. generate_single_variation env r i = generate_single_variation env' r' i"
    and "\<And>vs. generate_content_analysis env r vs = generate_content_analysis env' r' vs"
  shows "generate_content env r = generate_content env' r'"
proof -
  have v: "generate_variations env r [0, 1, 2] = generate_variations env' r' [0, 1, 2]"
    by (rule variations_cong) (rule assms(2))
  show ?thesis unfolding generate_content_def v assms(1)
    by (simp add: assms(3) del: generate_variations.simps cong: sum.case_cong)
qed

lemma single_variation_ignores_word_count:
  assumes "content_type r = u ''blog'' \<or> content_type r = u ''social_media''
         \<or> content_type r = u ''newsletter'' \<or> content_type r = u ''email_campaign''"
  shows "generate_single_variation env (r\<lparr>word_count := w\<rparr>) i
           = generate_single_variation env r i"
  using assms
proof (elim disjE)
  assume ct: "content_type r = u ''blog''"
  then have "content_type (r\<lparr>word_count := w\<rparr>) = u ''blog''" by simp
  with ct show ?thesis by (simp add: single_variation_blog blog_ignores_word_count)
next
  assume ct: "content_type r = u ''social_media''"
  then have "content_type (r\<lparr>word_count := w\<rparr>) = u ''social_media''" by simp
  with ct show ?thesis by (simp add: single_variation_social social_ignores_word_count)
next
  assume ct: "content_type r = u ''newsletter''"
  then have "content_type (r\<lparr>word_count := w\<rparr>) = u ''newsletter''" by simp
  with ct show ?thesis by (simp add: single_variation_newsletter newsletter_ignores_word_count)
next
  assume ct: "content_type r = u ''email_campaign''"
  then have "content_type (r\<lparr>word_count := w\<rparr>) = u ''email_campaign''" by simp
  with ct show ?thesis by (simp add: single_variation_email email_ignores_word_count)
qed

lemma generate_content_Inr_first:
  assumes "generate_content env r = Inr (vs, a)"
  shows "\<exists>v rest. vs = v # rest \<and> generate_single_variation env r 0 = Inr v"
proof -
  from assms have "generate_variations env r [0, 1, 2] = Inr vs"
    by (auto simp: generate_content_def split: if_splits sum.splits)
  then show ?thesis by (auto split: sum.splits)
qed

lemma str_int_1: "str_int 1 = [49]"
  by (simp add: str_int_def str_nat.simps)

lemma str_int_2: "str_int 2 = [50]"
  by (simp add: str_int_def str_nat.simps)

lemma video_content_prefix:
  assumes "generate_video_script env r i = Inr v"
  shows "\<exists>rest. content v = u ''# Video Script: '' @ title v @ u ''\<newline>''
           @ u ''**Duration: ~'' @ str_int (or_else_int (word_count r) 1200 div 150) @ rest"
  using assms
  by (auto simp: generate_video_script_def Let_def split: sum.splits)

lemma video_depends_on_word_count:
  assumes ct: "content_type r = u ''video_script''"
  shows "generate_content env (r\<lparr>word_count := Some 150\<rparr>)
           \<noteq> generate_content env (r\<lparr>word_count := Some 300\<rparr>)"
proof
  let ?r1 = "r\<lparr>word_count := Some 150\<rparr>" and ?r2 = "r\<lparr>word_count := Some 300\<rparr>"
  assume eq: "generate_content env ?r1 = generate_content env ?r2"
  have ct1: "content_type ?r1 = u ''video_script''" and ct2: "content_type ?r2 = u ''video_script''"
    using ct by simp_all
  have d1: "or_else_int (word_count ?r1) 1200 div 150 = 1"
    and d2: "or_else_int (word_count ?r2) 1200 div 150 = 2"
    by (simp_all add: or_else_int_def)
  have known: "content_type ?r1 \<in> fst ` set content_types"
    using ct1 video_is_known by simp
  have "\<not> float_overflows 1" by (simp add: float_overflows_def)
  then have nf: "\<not> float_overflows (or_else_int (word_count ?r1) 1200 div 150)"
    unfolding d1 .
  have "\<And>i. \<exists>v. generate_single_variation env ?r1 i = Inr v"
    by (simp only: single_variation_video [OF ct1] video_total [OF nf])
  from generate_content_all_ok [OF known this]
  obtain vs a where res: "generate_content env ?r1 = Inr (vs, a)" by blast
  from generate_content_Inr_first [OF res]
  obtain v rest where v1: "generate_video_script env ?r1 0 = Inr v"
    by (auto simp: single_variation_video [OF ct1])
  moreover from res eq have "generate_content env ?r2 = Inr (vs, a)" by simp
  from generate_content_Inr_first [OF this] generate_content_Inr_first [OF res]
  have v2: "generate_video_script env ?r2 0 = Inr v"
    using v1 by (auto simp: single_variation_video [OF ct1] single_variation_video [OF ct2])
  from video_content_prefix [OF v1] obtain rest1 where
    c1: "content v = u ''# Video Script: '' @ title v @ u ''\<newline>''
           @ u ''**Duration: ~'' @ str_int 1 @ rest1"
    unfolding d1 by blast
  from video_content_prefix [OF v2] obtain rest2 where
    c2: "content v = u ''# Video Script: '' @ title v @ u ''\<newline>''
           @ u ''**Duration: ~'' @ str_int 2 @ rest2"
    unfolding d2 by blast
  from c1 c2 have "str_int 1 @ rest1 = str_int 2 @ rest2" by simp
  then show False by (simp add: str_int_1 str_int_2)
qed

section \<open>Two process environments that agree\<close>















section \<open>Facts about the topic normalization\<close>












section \<open>The truncator\<close>

text \<open>
  C4, as amended. For every text and every limit \<open>l \<ge> 0\<close>, truncating the result of
  \<open>_truncate_to_limit\<close> again with the same limit returns it unchanged, except when
  the first call cut the text back to a space that lies within the last two characters
  of the budget (\<open>last_space + 3 > l\<close>): then the result with its ellipsis is longer than
  the limit and the second call changes it.
\<close>

theorem truncate_to_limit_idempotent_iff:
  assumes "0 \<le> l"
  shows "truncate_to_limit (truncate_to_limit text l) l = truncate_to_limit text l
     \<longleftrightarrow> \<not> (l < int (length text) \<and> 4 * l < 5 * rfind 32 (slice_to l text)
              \<and> l < rfind 32 (slice_to l text) + 3)"
proof (cases "int (length text) \<le> l")
  case True
  then show ?thesis by (simp add: truncate_fits)
next
  case False
  let ?tr = "slice_to l text"
  let ?ls = "rfind 32 ?tr"
  have tr: "?tr = take (nat l) text" using assms by (rule slice_to_nonneg)
  have len: "length ?tr = nat l" using assms False by (simp add: tr)
  show ?thesis
  proof (cases "4 * l < 5 * ?ls")
    case hard: False
    have T: "truncate_to_limit text l = ?tr @ u ''...''"
      using False hard by (simp add: truncate_hard)
    have long: "\<not> int (length (?tr @ u ''...'')) \<le> l"
      using assms len by (simp add: ellipsis_length)
    have again: "slice_to l (?tr @ u ''...'') = ?tr"
      using assms len by (simp add: slice_to_nonneg)
    have "truncate_to_limit (?tr @ u ''...'') l = ?tr @ u ''...''"
      using long hard by (simp add: truncate_hard again)
    with T hard show ?thesis by simp
  next
    case sp: True
    obtain k where k: "int k = ?ls" "k < nat l" "text ! k = 32"
      "truncate_to_limit text l = take k text @ u ''...''"
      using truncate_cut_at_space [OF assms _ sp] False by auto
    let ?T = "take k text @ u ''...''"
    have lenk: "length (take k text) = k" using k(2) False by simp
    have lenT: "length ?T = k + 3" using lenk by (simp add: ellipsis_length)
    show ?thesis
    proof (cases "l < ?ls + 3")
      case False
      then have "int (length ?T) \<le> l" using lenT k(1) by simp
      then have "truncate_to_limit ?T l = ?T" by (rule truncate_fits)
      with k(4) False show ?thesis by simp
    next
      case True
      then have long: "\<not> int (length ?T) \<le> l" using lenT k(1) by simp
      have cut: "slice_to l ?T = take k text @ take (nat l - k) (u ''...'')"
        using assms lenk k(2) by (simp add: slice_to_nonneg min_absorb2)
      have "rfind 32 (slice_to l ?T) = rfind 32 (take k text)"
        unfolding cut by (rule rfind_append_notin) (rule ellipsis_no_space)
      moreover have "rfind 32 (take k text) < int (length (take k text))"
        by (rule rfind_upper)
      ultimately have small: "rfind 32 (slice_to l ?T) < int k" using lenk by simp
      have lenS: "length (slice_to l ?T) = nat l"
        using assms long by (simp add: slice_to_nonneg)
      have "length (truncate_to_limit ?T l) \<noteq> length ?T"
      proof (cases "4 * l < 5 * rfind 32 (slice_to l ?T)")
        case True
        then have nn: "0 \<le> rfind 32 (slice_to l ?T)" using assms by linarith
        have "truncate_to_limit ?T l
                = slice_to (rfind 32 (slice_to l ?T)) (slice_to l ?T) @ u ''...''"
          using long True by (simp add: truncate_space)
        then have "length (truncate_to_limit ?T l)
                = min (nat l) (nat (rfind 32 (slice_to l ?T))) + 3"
          using nn lenS by (simp add: slice_to_nonneg [OF nn] ellipsis_length min.commute)
        then show ?thesis using small nn lenT by (simp add: min_def split: if_splits)
      next
        case False
        then have "truncate_to_limit ?T l = slice_to l ?T @ u ''...''"
          using long by (simp add: truncate_hard)
        then have "length (truncate_to_limit ?T l) = nat l + 3"
          using lenS by (simp add: ellipsis_length)
        then show ?thesis using lenT k(2) by simp
      qed
      then have "truncate_to_limit ?T l \<noteq> ?T" by auto
      with k(4) True sp \<open>\<not> int (length text) \<le> l\<close> show ?thesis by simp
    qed
  qed
qed

theorem truncate_to_limit_idempotent_witness:
  "(0::int) \<le> 3 \<and>
   truncate_to_limit (truncate_to_limit (u ''abcdef'') 3) 3 = truncate_to_limit (u ''abcdef'') 3"
proof -
  have h: "(0::int) \<le> 3" by simp
  have "\<not> (3 < int (length (u ''abcdef'')) \<and> 4 * 3 < 5 * rfind 32 (slice_to 3 (u ''abcdef''))
            \<and> 3 < rfind 32 (slice_to 3 (u ''abcdef'')) + 3)"
    by (simp add: u_def slice_to_def)
  with truncate_to_limit_idempotent_iff [OF h, of "u ''abcdef''"] h show ?thesis by blast
qed

text \<open>
  C4 as stated fails: \<open>"aaaa aaaa bbbb"\<close> with limit 10 is cut back to the space at index
  9, giving \<open>"aaaa aaaa..."\<close> (12 characters); truncating that again gives
  \<open>"aaaa aaaa...."\<close>.
\<close>

theorem truncate_to_limit_idempotent_counterexample:
  "truncate_to_limit (truncate_to_limit (u ''aaaa aaaa bbbb'') 10) 10
     \<noteq> truncate_to_limit (u ''aaaa aaaa bbbb'') 10"
  by (simp add: truncate_to_limit_def u_def slice_to_def)

text \<open>
  C5, as amended. For every text and every limit \<open>l \<ge> 0\<close> the result of
  \<open>_truncate_to_limit\<close> has at most \<open>l\<close> characters plus the ellipsis; and when the
  text is longer than \<open>l\<close> and the last space within its first \<open>l\<close> characters lies
  strictly after \<open>0.8 * l\<close>, the kept portion is the text up to that space, followed by
  the ellipsis.
\<close>

theorem truncate_to_limit_budget:
  assumes "0 \<le> char_limit"
  shows "int (length (truncate_to_limit text char_limit)) \<le> char_limit + int (length (u ''...''))
     \<and> (char_limit < int (length text)
          \<and> 4 * char_limit < 5 * rfind 32 (slice_to char_limit text) \<longrightarrow>
        (\<exists>k. int k = rfind 32 (slice_to char_limit text) \<and> k < nat char_limit \<and> text ! k = 32
           \<and> truncate_to_limit text char_limit = take k text @ u ''...''))"
  using assms truncate_bound [OF assms] truncate_cut_at_space [OF assms] by blast

theorem truncate_to_limit_budget_witness:
  "(0::int) \<le> 10
   \<and> int (length (truncate_to_limit (u ''aaaa aaaa bbbb'') 10)) \<le> 10 + int (length (u ''...''))
   \<and> (\<exists>k. int k = rfind 32 (slice_to 10 (u ''aaaa aaaa bbbb'')) \<and> k < nat 10
          \<and> u ''aaaa aaaa bbbb'' ! k = 32
          \<and> truncate_to_limit (u ''aaaa aaaa bbbb'') 10 = take k (u ''aaaa aaaa bbbb'') @ u ''...'')"
proof -
  have h: "(0::int) \<le> 10" by simp
  have "10 < int (length (u ''aaaa aaaa bbbb''))
      \<and> 4 * 10 < 5 * rfind 32 (slice_to 10 (u ''aaaa aaaa bbbb''))"
    by (simp add: u_def slice_to_def)
  with truncate_to_limit_budget [OF h, of "u ''aaaa aaaa bbbb''"] h show ?thesis by blast
qed

text \<open>
  C5 as stated fails in two places. With a negative limit the result is longer than the
  limit plus the ellipsis: \<open>"abc"\<close> at limit \<open>-1\<close> gives \<open>"ab..."\<close>. And a last space
  exactly at \<open>0.8 * l\<close> does not move the cut: in \<open>"aaaaaaaa bbbbbb"\<close> with limit 10
  the last space of the first ten characters is at index 8, and the result
  \<open>"aaaaaaaa b..."\<close> keeps the severed word.
\<close>

theorem truncate_to_limit_budget_counterexample:
  "int (length (truncate_to_limit (u ''abc'') (- 1))) > - 1 + int (length (u ''...''))
   \<and> 10 < int (length (u ''aaaaaaaa bbbbbb''))
   \<and> rfind 32 (slice_to 10 (u ''aaaaaaaa bbbbbb'')) = 8
   \<and> truncate_to_limit (u ''aaaaaaaa bbbbbb'') 10 = u ''aaaaaaaa b...''
   \<and> truncate_to_limit (u ''aaaaaaaa bbbbbb'') 10 \<noteq> take 8 (u ''aaaaaaaa bbbbbb'') @ u ''...''"
  by (simp add: truncate_to_limit_def u_def slice_to_def)

section \<open>The public operation\<close>




text \<open>
  C2, as amended. For every request whose content type is recognized, whose tone is a
  key of \<open>tone_templates\<close> when the content type is \<open>blog\<close>, and whose duration fits a
  float when the content type is \<open>video_script\<close>, \<open>generate_content\<close> returns exactly
  three variations, and the word count of each is \<open>_count_words\<close> of its content.
\<close>

theorem generate_content_three_variations:
  assumes "content_type r \<in> fst ` set content_types"
    and "content_type r = u ''blog'' \<longrightarrow> tone r \<in> fst ` set tone_templates"
    and "content_type r = u ''video_script'' \<longrightarrow>
           \<not> float_overflows (or_else_int (word_count r) 1200 div 150)"
  shows "\<exists>vs a. generate_content env r = Inr (vs, a) \<and> length vs = 3
           \<and> list_all (\<lambda>v. out_word_count v = count_words (content v)) vs"
proof -
  have "\<And>i. \<exists>v. generate_single_variation env r i = Inr v"
    using assms by (rule single_variation_total)
  with assms(1) show ?thesis by (rule generate_content_all_ok)
qed

theorem generate_content_three_variations_witness:
  "\<exists>vs a. generate_content env0 (example_request\<lparr>content_type := u ''social_media''\<rparr>)
             = Inr (vs, a) \<and> length vs = 3
           \<and> list_all (\<lambda>v. out_word_count v = count_words (content v)) vs"
proof -
  let ?r = "example_request\<lparr>content_type := u ''social_media''\<rparr>"
  have h1: "content_type ?r \<in> fst ` set content_types"
    by (simp add: content_types_def)
  have h2: "content_type ?r = u ''blog'' \<longrightarrow> tone ?r \<in> fst ` set tone_templates"
    by (simp add: u_def)
  have h3: "content_type ?r = u ''video_script'' \<longrightarrow>
      \<not> float_overflows (or_else_int (word_count ?r) 1200 div 150)"
    by (simp add: u_def)
  from generate_content_three_variations [OF h1 h2 h3] show ?thesis .
qed

text \<open>
  C2 as stated fails: a \<open>blog\<close> request with the tone \<open>casual\<close> has a recognized
  content type and returns no variations at all; neither does a \<open>video_script\<close> request
  whose word count is \<open>150 * 2^1024\<close>.
\<close>

theorem generate_content_three_variations_counterexample:
  "content_type (example_request\<lparr>tone := u ''casual''\<rparr>) \<in> fst ` set content_types
   \<and> generate_content env0 (example_request\<lparr>tone := u ''casual''\<rparr>)
       = Inl (GenerationFailed (KeyError (u ''casual'')))
   \<and> u ''video_script'' \<in> fst ` set content_types
   \<and> generate_content env0
         (example_request\<lparr>content_type := u ''video_script'',
            word_count := Some (150 * 2 ^ 1024)\<rparr>)
       = Inl (GenerationFailed OverflowError)"
proof -
  let ?r = "example_request\<lparr>tone := u ''casual''\<rparr>"
  let ?v = "example_request\<lparr>content_type := u ''video_script'',
              word_count := Some (150 * 2 ^ 1024)\<rparr>"
  have "content_type ?r = u ''blog''" by (simp add: example_request_fields)
  moreover have "tone ?r \<notin> fst ` set tone_templates"
    by (simp add: tone_known_iff u_def)
  ultimately have "generate_content env0 ?r = Inl (GenerationFailed (KeyError (tone ?r)))"
    by (rule generate_content_blog_unknown_tone)
  then have c1: "content_type ?r \<in> fst ` set content_types
      \<and> generate_content env0 ?r = Inl (GenerationFailed (KeyError (u ''casual'')))"
    using blog_is_known by (simp add: example_request_fields)
  have ct: "content_type ?v = u ''video_script''" by (simp del: power_numeral)
  have "word_count ?v = Some (150 * 2 ^ 1024)" by (simp del: power_numeral)
  then have "float_overflows (or_else_int (word_count ?v) 1200 div 150)"
    by (simp only: float_overflows_sample)
  with ct have "generate_content env0 ?v = Inl (GenerationFailed OverflowError)"
    by (rule generate_content_video_overflow)
  with c1 video_is_known show ?thesis by blast
qed

section \<open>The tag deriver\<close>

text \<open>
  C8. For every topic, \<open>_generate_seo_tags\<close> returns at most ten tags, none of them one
  of the stop words, and the five base tags are all in the set built before the cut to
  ten members. The last two parts need the set to list exactly its members.
\<close>

theorem generate_seo_tags_bounded:
  assumes "env_ok env"
  shows "length (generate_seo_tags env tp) \<le> 10
     \<and> set stop_words \<inter> set (generate_seo_tags env tp) = {}
     \<and> set base_tags \<subseteq> set (seo_tag_set env tp)"
proof -
  have "length (generate_seo_tags env tp) \<le> 10" by (simp add: generate_seo_tags_def)
  moreover have "set stop_words \<inter> set (seo_tag_set env tp) = {}"
    using stop_words_not_base specific_tags_no_stop [of env tp]
    by (auto simp: seo_tag_set_members [OF assms])
  then have "set stop_words \<inter> set (generate_seo_tags env tp) = {}"
    using seo_tags_subset [of env tp] by blast
  moreover have "set base_tags \<subseteq> set (seo_tag_set env tp)"
    by (simp add: seo_tag_set_members [OF assms])
  ultimately show ?thesis by blast
qed

theorem generate_seo_tags_bounded_witness:
  "env_ok env0
   \<and> length (generate_seo_tags env0 (u ''The Art of War'')) \<le> 10
   \<and> set stop_words \<inter> set (generate_seo_tags env0 (u ''The Art of War'')) = {}
   \<and> set base_tags \<subseteq> set (seo_tag_set env0 (u ''The Art of War''))"
  using generate_seo_tags_bounded [OF env0_ok, of "u ''The Art of War''"] env0_ok by blast

section \<open>Titles and tags of the builders\<close>

text \<open>
  C7, as amended. The blog builder keeps five title templates and the newsletter and
  video script builders four each, and each selects \<open>titles[i mod len(titles)]\<close>. The
  social media builder has no list: it branches on the index, and for the indices 0, 1
  and 2 its three titles are taken in order. The email campaign builder keeps two titles
  for each of its three campaign types, and selects the type \<open>campaign_types[i mod 3]\<close>
  and of its two titles the one at \<open>i mod 2\<close>.
\<close>

theorem title_selection:
  "(generate_blog_content env r i = Inr v \<longrightarrow>
      length (blog_title_options r) = 5 \<and> title v = blog_title_options r ! nat (i mod 5))
   \<and> (generate_newsletter_content env r i = Inr v \<longrightarrow>
      length (newsletter_title_templates r) = 4
      \<and> title v = newsletter_title_templates r ! nat (i mod 4))
   \<and> (generate_video_script env r i = Inr v \<longrightarrow>
      length (video_title_templates r) = 4 \<and> title v = video_title_templates r ! nat (i mod 4))
   \<and> (generate_social_content env r i = Inr v \<and> (i = 0 \<or> i = 1 \<or> i = 2) \<longrightarrow>
      title v = [u ''Quick Tip: '' @ topic r, topic r @ u '' Explained'',
                 u ''My Experience with '' @ topic r] ! nat i)
   \<and> (generate_email_campaign env r i = Inr v \<longrightarrow>
      (\<exists>ts. lookup (email_title_templates r) (campaign_types ! nat (i mod 3)) = Inr ts
          \<and> length ts = 2 \<and> title v = ts ! nat (i mod 2)))"
proof (intro conjI impI)
  assume "generate_blog_content env r i = Inr v"
  from blog_Inr [OF this] show "title v = blog_title_options r ! nat (i mod 5)"
    by (simp add: blog_titles_length)
next
  assume "generate_newsletter_content env r i = Inr v"
  from newsletter_Inr [OF this]
  show "title v = newsletter_title_templates r ! nat (i mod 4)"
    by (simp add: newsletter_titles_length)
next
  assume "generate_video_script env r i = Inr v"
  from video_Inr [OF this] show "title v = video_title_templates r ! nat (i mod 4)"
    by (simp add: video_titles_length)
next
  assume a: "generate_social_content env r i = Inr v \<and> (i = 0 \<or> i = 1 \<or> i = 2)"
  then have "title v = social_title r i" using social_Inr by blast
  with a show "title v = [u ''Quick Tip: '' @ topic r, topic r @ u '' Explained'',
                 u ''My Experience with '' @ topic r] ! nat i"
    by (simp only: social_title_list)
next
  assume "generate_email_campaign env r i = Inr v"
  then show "\<exists>ts. lookup (email_title_templates r) (campaign_types ! nat (i mod 3)) = Inr ts
          \<and> length ts = 2 \<and> title v = ts ! nat (i mod 2)"
    by (rule email_Inr_title)
qed (simp_all add: blog_titles_length newsletter_titles_length video_titles_length)

theorem title_selection_witness:
  "(\<exists>v. generate_newsletter_content env0 example_request 2 = Inr v
        \<and> title v = u ''Trending: Benefits of DevOps for Startups Update'')
   \<and> (\<exists>v. generate_social_content env0 example_request 1 = Inr v
        \<and> title v = u ''Benefits of DevOps for Startups Explained'')
   \<and> (\<exists>v ts. generate_email_campaign env0 example_request 1 = Inr v
        \<and> length ts = 2 \<and> title v = ts ! 1)"
proof -
  obtain v1 where v1: "generate_newsletter_content env0 example_request 2 = Inr v1"
    using newsletter_total by blast
  obtain v2 where v2: "generate_social_content env0 example_request 1 = Inr v2"
    using social_total by blast
  obtain v3 where v3: "generate_email_campaign env0 example_request 1 = Inr v3"
    using email_total by blast
  from title_selection [of env0 example_request 2 v1] v1
  have "title v1 = newsletter_title_templates example_request ! nat (2 mod 4)" by blast
  then have t1: "title v1 = u ''Trending: Benefits of DevOps for Startups Update''"
    by (simp add: newsletter_title_templates_def example_request_fields u_def)
  from title_selection [of env0 example_request 1 v2] v2
  have "title v2 = [u ''Quick Tip: '' @ topic example_request,
                    topic example_request @ u '' Explained'',
                    u ''My Experience with '' @ topic example_request] ! nat 1" by blast
  then have t2: "title v2 = u ''Benefits of DevOps for Startups Explained''"
    by (simp add: example_request_fields u_def)
  from title_selection [of env0 example_request 1 v3] v3
  obtain ts where "length ts = 2" and "title v3 = ts ! nat (1 mod 2)" by blast
  then have t3: "length ts = 2 \<and> title v3 = ts ! 1" by simp
  from v1 t1 v2 t2 v3 t3 show ?thesis by blast
qed

text \<open>
  C7 as stated fails: each title list of the email campaign builder has two entries, not
  four or more.
\<close>

theorem title_selection_counterexample:
  "map (\<lambda>(campaign_type, title_options). length title_options)
     (email_title_templates example_request) = [2, 2, 2]"
  by (simp add: email_title_templates_def)

text \<open>
  C10. Only the blog builder reads \<open>include_seo\<close>: its tags are the SEO tags of the
  topic when the flag is set and the empty list when it is not. The newsletter, video
  script and email campaign builders always return the SEO tags of the topic, the social
  media builder always the hashtags made from them, and the whole output of these four
  is the same whatever the flag.
\<close>

theorem include_seo_only_in_blog:
  "(generate_blog_content env r i = Inr v \<longrightarrow>
      out_tags v = TagList (if include_seo r then generate_seo_tags env (topic r) else []))
   \<and> (generate_newsletter_content env r i = Inr v \<longrightarrow>
      out_tags v = TagList (generate_seo_tags env (topic r)))
   \<and> (generate_video_script env r i = Inr v \<longrightarrow>
      out_tags v = TagList (generate_seo_tags env (topic r)))
   \<and> (generate_email_campaign env r i = Inr v \<longrightarrow>
      out_tags v = TagList (generate_seo_tags env (topic r)))
   \<and> (generate_social_content env r i = Inr v \<longrightarrow>
      out_tags v = TagString (generate_social_tags env (topic r)))
   \<and> generate_newsletter_content env (r\<lparr>include_seo := b\<rparr>) i
        = generate_newsletter_content env r i
   \<and> generate_video_script env (r\<lparr>include_seo := b\<rparr>) i = generate_video_script env r i
   \<and> generate_email_campaign env (r\<lparr>include_seo := b\<rparr>) i
        = generate_email_campaign env r i
   \<and> generate_social_content env (r\<lparr>include_seo := b\<rparr>) i
        = generate_social_content env r i"
  using blog_Inr [of env r i v] newsletter_Inr [of env r i v] video_Inr [of env r i v]
    email_Inr [of env r i v] social_Inr [of env r i v]
  by (simp add: newsletter_ignores_seo video_ignores_seo email_ignores_seo social_ignores_seo)

theorem include_seo_only_in_blog_witness:
  "(\<exists>v. generate_blog_content env0 (example_request\<lparr>include_seo := False\<rparr>) 0 = Inr v
        \<and> out_tags v = TagList [])
   \<and> (\<exists>v. generate_newsletter_content env0 (example_request\<lparr>include_seo := False\<rparr>) 0 = Inr v
        \<and> out_tags v = TagList (generate_seo_tags env0 (topic example_request)))"
proof -
  let ?r = "example_request\<lparr>include_seo := False\<rparr>"
  have "map_of tone_templates (tone ?r) \<noteq> None"
    by (simp add: tone_unknown_iff tone_known_iff example_request_fields)
  then obtain v1 where v1: "generate_blog_content env0 ?r 0 = Inr v1"
    using blog_total by blast
  obtain v2 where v2: "generate_newsletter_content env0 ?r 0 = Inr v2"
    using newsletter_total by blast
  from include_seo_only_in_blog [of env0 ?r 0 v1] v1
  have t1: "out_tags v1 = TagList []" by simp
  from include_seo_only_in_blog [of env0 ?r 0 v2] v2
  have t2: "out_tags v2 = TagList (generate_seo_tags env0 (topic example_request))" by simp
  from v1 t1 v2 t2 show ?thesis by blast
qed

section \<open>What the output depends on\<close>

text \<open>
  C9. For the content types \<open>blog\<close>, \<open>social_media\<close>, \<open>newsletter\<close> and
  \<open>email_campaign\<close> the result of \<open>generate_content\<close>, variations and analysis, is the
  same whatever the \<open>word_count\<close> of the request. For \<open>video_script\<close> it is not: the
  word counts 150 and 300 give different results, since the duration is written into the
  script.
\<close>

theorem word_count_only_in_video_script:
  "(content_type r = u ''blog'' \<or> content_type r = u ''social_media''
      \<or> content_type r = u ''newsletter'' \<or> content_type r = u ''email_campaign'' \<longrightarrow>
    generate_content env (r\<lparr>word_count := w\<rparr>) = generate_content env r)
   \<and> (content_type r = u ''video_script'' \<longrightarrow>
    generate_content env (r\<lparr>word_count := Some 150\<rparr>)
      \<noteq> generate_content env (r\<lparr>word_count := Some 300\<rparr>))"
proof (intro conjI impI)
  assume a: "content_type r = u ''blog'' \<or> content_type r = u ''social_media''
      \<or> content_type r = u ''newsletter'' \<or> content_type r = u ''email_campaign''"
  show "generate_content env (r\<lparr>word_count := w\<rparr>) = generate_content env r"
  proof (rule generate_content_cong)
    show "content_type (r\<lparr>word_count := w\<rparr>) = content_type r" by simp
    show "generate_single_variation env (r\<lparr>word_count := w\<rparr>) i
            = generate_single_variation env r i" for i
      using a by (rule single_variation_ignores_word_count)
    show "generate_content_analysis env (r\<lparr>word_count := w\<rparr>) vs
            = generate_content_analysis env r vs" for vs
      by (rule analysis_ignores_word_count)
  qed
next
  assume "content_type r = u ''video_script''"
  then show "generate_content env (r\<lparr>word_count := Some 150\<rparr>)
      \<noteq> generate_content env (r\<lparr>word_count := Some 300\<rparr>)"
    by (rule video_depends_on_word_count)
qed

theorem word_count_only_in_video_script_witness:
  "generate_content env0 (example_request\<lparr>word_count := Some 2000\<rparr>)
     = generate_content env0 example_request
   \<and> generate_content env0
        (example_request\<lparr>content_type := u ''video_script'', word_count := Some 150\<rparr>)
     \<noteq> generate_content env0
        (example_request\<lparr>content_type := u ''video_script'', word_count := Some 300\<rparr>)"
proof -
  let ?r = "example_request\<lparr>content_type := u ''video_script''\<rparr>"
  have h1: "content_type example_request = u ''blog''
      \<or> content_type example_request = u ''social_media''
      \<or> content_type example_request = u ''newsletter''
      \<or> content_type example_request = u ''email_campaign''"
    by (simp add: example_request_fields)
  have h2: "content_type ?r = u ''video_script''" by simp
  from word_count_only_in_video_script [of example_request env0 "Some 2000"] h1
  have c1: "generate_content env0 (example_request\<lparr>word_count := Some 2000\<rparr>)
     = generate_content env0 example_request" by blast
  from word_count_only_in_video_script [of ?r env0] h2
  have "generate_content env0 (?r\<lparr>word_count := Some 150\<rparr>)
      \<noteq> generate_content env0 (?r\<lparr>word_count := Some 300\<rparr>)" by blast
  with c1 show ?thesis by simp
qed



section \<open>The topic normalization\<close>




end
